theory Spec2Isabelle
  imports Main "HOL-Library.Multiset" "HOL-Library.Product_Lexorder"
    "HOL-Library.Code_Target_Numeral"
begin

section \<open>Strings and the regular expressions of Python's re\<close>

text \<open>
  A Python \<open>str\<close> is modelled as a \<open>string\<close> whose characters are the code points below
  256. \<open>is_space\<close> is what \<open>\s\<close> and \<open>str.strip\<close> accept in that range, \<open>is_digit\<close> what
  \<open>\d\<close> accepts, \<open>lower_c\<close> is \<open>str.lower\<close> on one character.
\<close>

definition code :: "char \<Rightarrow> nat" where
  "code c = of_char c"

definition is_digit :: "char \<Rightarrow> bool" where
  "is_digit c = (48 \<le> code c \<and> code c \<le> 57)"

definition is_space :: "char \<Rightarrow> bool" where
  "is_space c = (let n = code c in (9 \<le> n \<and> n \<le> 13) \<or> (28 \<le> n \<and> n \<le> 32) \<or> n = 133 \<or> n = 160)"

definition lower_c :: "char \<Rightarrow> char" where
  "lower_c c = (let n = code c in
     if (65 \<le> n \<and> n \<le> 90) \<or> (192 \<le> n \<and> n \<le> 222 \<and> n \<noteq> 215) then char_of (n + 32) else c)"

definition upper_c :: "char \<Rightarrow> char" where
  "upper_c c = (let n = code c in
     if (97 \<le> n \<and> n \<le> 122) \<or> (224 \<le> n \<and> n \<le> 254 \<and> n \<noteq> 247) then char_of (n - 32) else c)"

definition py_lower :: "string \<Rightarrow> string" where
  "py_lower s = map lower_c s"

definition py_upper :: "string \<Rightarrow> string" where
  "py_upper s = map upper_c s"

definition py_strip :: "string \<Rightarrow> string" where
  "py_strip s = rev (dropWhile is_space (rev (dropWhile is_space s)))"

text \<open>\<open>int(s)\<close> on a string of decimal digits, and \<open>str(n)\<close>, \<open>f"{n:02d}"\<close>.\<close>

definition digit_val :: "char \<Rightarrow> nat" where
  "digit_val c = code c - 48"

definition int_of_digits :: "string \<Rightarrow> nat" where
  "int_of_digits ds = foldl (\<lambda>a c. 10 * a + digit_val c) 0 ds"

fun str_nat :: "nat \<Rightarrow> string" where
  "str_nat n = (if n < 10 then [char_of (48 + n)]
                else str_nat (n div 10) @ [char_of (48 + n mod 10)])"

declare str_nat.simps [simp del]

definition zpad :: "nat \<Rightarrow> string \<Rightarrow> string" where
  "zpad w s = replicate (w - length s) (CHR ''0'') @ s"

text \<open>\<open>x in s\<close> for strings: \<open>x\<close> occurs as a contiguous piece of \<open>s\<close>.\<close>

fun starts_with :: "string \<Rightarrow> string \<Rightarrow> bool" where
  "starts_with [] s = True"
| "starts_with (x # xs) [] = False"
| "starts_with (x # xs) (c # cs) = (x = c \<and> starts_with xs cs)"

fun contains :: "string \<Rightarrow> string \<Rightarrow> bool" where
  "contains x [] = (x = [])"
| "contains x (c # cs) = (starts_with x (c # cs) \<or> contains x cs)"

text \<open>
  A backtracking matcher for the fragment of \<open>re\<close> the program uses. \<open>rxm r e s\<close> lists, in
  the order Python's engine tries them, every way \<open>r\<close> matches a prefix of \<open>s\<close>: the groups
  captured (added to \<open>e\<close>) and the rest of \<open>s\<close>. The first element is the match Python
  reports. \<open>Star\<close> is the greedy \<open>*\<close>; its body never matches the empty string here.
\<close>

datatype rx = Cls "char \<Rightarrow> bool" | Eps | Seq rx rx | Alt rx rx | Star rx | Grp string rx

type_synonym caps = "(string \<times> string) list"

function rxm :: "rx \<Rightarrow> caps \<Rightarrow> string \<Rightarrow> (caps \<times> string) list" where
  "rxm (Cls p) e s = (case s of [] \<Rightarrow> [] | c # t \<Rightarrow> if p c then [(e, t)] else [])"
| "rxm Eps e s = [(e, s)]"
| "rxm (Seq a b) e s = concat (map (\<lambda>(e', s'). rxm b e' s') (rxm a e s))"
| "rxm (Alt a b) e s = rxm a e s @ rxm b e s"
| "rxm (Star a) e s =
     concat (map (\<lambda>(e', s'). if length s' < length s then rxm (Star a) e' s' else [])
                 (rxm a e s)) @ [(e, s)]"
| "rxm (Grp n a) e s =
     map (\<lambda>(e', s'). ((n, take (length s - length s') s) # e', s')) (rxm a e s)"
  by pat_completeness auto
termination
  by (relation "measures [\<lambda>(r, e, s). size r, \<lambda>(r, e, s). length s]") auto

declare rxm.simps(5) [simp del]

text \<open>\<open>re.match\<close>, \<open>re.search\<close> and the number of items \<open>re.findall\<close> returns.\<close>

definition rx_match :: "rx \<Rightarrow> string \<Rightarrow> (caps \<times> string) option" where
  "rx_match r s = (case rxm r [] s of [] \<Rightarrow> None | m # _ \<Rightarrow> Some m)"

fun rx_search :: "rx \<Rightarrow> string \<Rightarrow> caps option" where
  "rx_search r [] = (case rx_match r [] of None \<Rightarrow> None | Some (e, _) \<Rightarrow> Some e)"
| "rx_search r (c # t) =
     (case rx_match r (c # t) of None \<Rightarrow> rx_search r t | Some (e, _) \<Rightarrow> Some e)"

definition rx_found :: "rx \<Rightarrow> string \<Rightarrow> bool" where
  "rx_found r s = (rx_search r s \<noteq> None)"

function rx_count :: "rx \<Rightarrow> string \<Rightarrow> nat" where
  "rx_count r [] = (case rx_match r [] of None \<Rightarrow> 0 | Some _ \<Rightarrow> 1)"
| "rx_count r (c # t) =
     (case rx_match r (c # t) of
        None \<Rightarrow> rx_count r t
      | Some (e, s') \<Rightarrow>
          if length s' < length (c # t) then Suc (rx_count r s') else Suc (rx_count r t))"
  by pat_completeness auto
termination
  by (relation "measure (\<lambda>(r, s). length s)") auto

definition grp :: "caps \<Rightarrow> string \<Rightarrow> string" where
  "grp e n = (case map_of e n of None \<Rightarrow> [] | Some v \<Rightarrow> v)"

definition ch :: "char \<Rightarrow> rx" where
  "ch c = Cls (\<lambda>x. x = c)"

definition chi :: "char \<Rightarrow> rx" where
  "chi c = Cls (\<lambda>x. lower_c x = lower_c c)"

definition rng :: "char \<Rightarrow> char \<Rightarrow> rx" where
  "rng a b = Cls (\<lambda>x. code a \<le> code x \<and> code x \<le> code b)"

definition dg :: rx where
  "dg = Cls is_digit"

definition ws :: rx where
  "ws = Cls is_space"

definition lit :: "string \<Rightarrow> rx" where
  "lit s = foldr (\<lambda>c r. Seq (ch c) r) s Eps"

definition liti :: "string \<Rightarrow> rx" where
  "liti s = foldr (\<lambda>c r. Seq (chi c) r) s Eps"

definition rplus :: "rx \<Rightarrow> rx" where
  "rplus r = Seq r (Star r)"

definition ropt :: "rx \<Rightarrow> rx" where
  "ropt r = Alt r Eps"

section \<open>Dates and times\<close>

text \<open>
  A naive \<open>datetime\<close> of Python, field by field. Python compares two of them field by
  field from the year down, which is the lexicographic order of \<open>dt_key\<close>. The constructor
  \<open>datetime(y, m, d, h, mi)\<close> raises ValueError on a field out of range; \<open>mk_datetime\<close>
  returns \<open>None\<close> there.
\<close>

type_synonym date = "nat \<times> nat \<times> nat"

record datetime =
  year :: nat
  month :: nat
  day :: nat
  hour :: nat
  minute :: nat
  second :: nat
  microsecond :: nat

type_synonym dtkey = "nat \<times> nat \<times> nat \<times> nat \<times> nat \<times> nat \<times> nat"

definition dt_key :: "datetime \<Rightarrow> dtkey" where
  "dt_key t = (year t, month t, day t, hour t, minute t, second t, microsecond t)"

definition dt_date :: "datetime \<Rightarrow> date" where
  "dt_date t = (year t, month t, day t)"

definition is_leap :: "nat \<Rightarrow> bool" where
  "is_leap y = (y mod 4 = 0 \<and> (y mod 100 \<noteq> 0 \<or> y mod 400 = 0))"

definition days_in_month :: "nat \<Rightarrow> nat \<Rightarrow> nat" where
  "days_in_month y m =
     (if m = 2 then (if is_leap y then 29 else 28)
      else if m = 4 \<or> m = 6 \<or> m = 9 \<or> m = 11 then 30 else 31)"

definition valid_date :: "date \<Rightarrow> bool" where
  "valid_date dd = (case dd of (y, m, d) \<Rightarrow>
     1 \<le> y \<and> y \<le> 9999 \<and> 1 \<le> m \<and> m \<le> 12 \<and> 1 \<le> d \<and> d \<le> days_in_month y m)"

definition mk_datetime :: "nat \<Rightarrow> nat \<Rightarrow> nat \<Rightarrow> nat \<Rightarrow> nat \<Rightarrow> datetime option" where
  "mk_datetime y m d h mi =
     (if valid_date (y, m, d) \<and> h \<le> 23 \<and> mi \<le> 59
      then Some \<lparr>year = y, month = m, day = d, hour = h, minute = mi,
                 second = 0, microsecond = 0\<rparr>
      else None)"

text \<open>
  \<open>date + timedelta(days=k)\<close>: OverflowError (\<open>None\<close>) when the result leaves
  0001-01-01 .. 9999-12-31.
\<close>

definition next_day :: "date \<Rightarrow> date option" where
  "next_day dd = (case dd of (y, m, d) \<Rightarrow>
     if d < days_in_month y m then Some (y, m, d + 1)
     else if m < 12 then Some (y, m + 1, 1)
     else if y < 9999 then Some (y + 1, 1, 1)
     else None)"

definition prev_day :: "date \<Rightarrow> date option" where
  "prev_day dd = (case dd of (y, m, d) \<Rightarrow>
     if 1 < d then Some (y, m, d - 1)
     else if 1 < m then Some (y, m - 1, days_in_month y (m - 1))
     else if 1 < y then Some (y - 1, 12, 31)
     else None)"

fun days_fwd :: "nat \<Rightarrow> date \<Rightarrow> date option" where
  "days_fwd 0 dd = Some dd"
| "days_fwd (Suc n) dd = (case next_day dd of None \<Rightarrow> None | Some dd' \<Rightarrow> days_fwd n dd')"

fun days_back :: "nat \<Rightarrow> date \<Rightarrow> date option" where
  "days_back 0 dd = Some dd"
| "days_back (Suc n) dd = (case prev_day dd of None \<Rightarrow> None | Some dd' \<Rightarrow> days_back n dd')"

definition add_days :: "int \<Rightarrow> date \<Rightarrow> date option" where
  "add_days k dd = (if 0 \<le> k then days_fwd (nat k) dd else days_back (nat (- k)) dd)"

definition with_date :: "datetime \<Rightarrow> date \<Rightarrow> datetime" where
  "with_date t dd = (case dd of (y, m, d) \<Rightarrow> t\<lparr>year := y, month := m, day := d\<rparr>)"

text \<open>\<open>t + timedelta(hours=1)\<close> and \<open>t + timedelta(hours=72)\<close>.\<close>

definition add_hour :: "datetime \<Rightarrow> datetime option" where
  "add_hour t =
     (if hour t < 23 then Some (t\<lparr>hour := hour t + 1\<rparr>)
      else (case next_day (dt_date t) of
              None \<Rightarrow> None
            | Some dd \<Rightarrow> Some ((with_date t dd)\<lparr>hour := 0\<rparr>)))"

definition add_72h :: "datetime \<Rightarrow> datetime option" where
  "add_72h t = (case add_days 3 (dt_date t) of None \<Rightarrow> None | Some dd \<Rightarrow> Some (with_date t dd))"

text \<open>\<open>date.toordinal\<close>, \<open>date.weekday\<close> (Monday is 0) and \<open>strftime("%A")\<close>.\<close>

definition days_before_year :: "nat \<Rightarrow> nat" where
  "days_before_year y = (let p = y - 1 in p * 365 + p div 4 - p div 100 + p div 400)"

definition days_before_month :: "nat \<Rightarrow> nat \<Rightarrow> nat" where
  "days_before_month y m = sum_list (map (days_in_month y) [1..<m])"

definition ymd2ord :: "date \<Rightarrow> nat" where
  "ymd2ord dd = (case dd of (y, m, d) \<Rightarrow> days_before_year y + days_before_month y m + d)"

definition weekday :: "date \<Rightarrow> nat" where
  "weekday dd = (ymd2ord dd + 6) mod 7"

definition day_name :: "date \<Rightarrow> string" where
  "day_name dd = [''Monday'', ''Tuesday'', ''Wednesday'', ''Thursday'', ''Friday'',
                  ''Saturday'', ''Sunday''] ! weekday dd"

text \<open>\<open>strftime("%Y-%m-%d")\<close> of a date (for the years from 1000 on).\<close>

definition iso_date :: "date \<Rightarrow> string" where
  "iso_date dd = (case dd of (y, m, d) \<Rightarrow>
     zpad 4 (str_nat y) @ ''-'' @ zpad 2 (str_nat m) @ ''-'' @ zpad 2 (str_nat d))"

section \<open>datetime.strptime\<close>

text \<open>
  \<open>strptime\<close> turns the format into a regular expression with one named group per
  directive (the table of CPython's \<open>_strptime.TimeRE\<close>), a run of whitespace of the
  format into \<open>\s+\<close>, and matches it, ignoring case, at the start of the text; text left
  over after the match is an error, and so is a date that does not exist. A directive
  the program never uses matches nothing. \<open>None\<close> stands for the ValueError.
\<close>

definition directive_rx :: "char \<Rightarrow> rx" where
  "directive_rx d =
    (if d = CHR ''Y'' then Grp ''Y'' (Seq dg (Seq dg (Seq dg dg)))
     else if d = CHR ''m'' then
       Grp ''m'' (Alt (Seq (ch (CHR ''1'')) (rng (CHR ''0'') (CHR ''2'')))
                 (Alt (Seq (ch (CHR ''0'')) (rng (CHR ''1'') (CHR ''9'')))
                      (rng (CHR ''1'') (CHR ''9''))))
     else if d = CHR ''d'' then
       Grp ''d'' (Alt (Seq (ch (CHR ''3'')) (rng (CHR ''0'') (CHR ''1'')))
                 (Alt (Seq (rng (CHR ''1'') (CHR ''2'')) dg)
                 (Alt (Seq (ch (CHR ''0'')) (rng (CHR ''1'') (CHR ''9'')))
                 (Alt (rng (CHR ''1'') (CHR ''9''))
                      (Seq (ch (CHR '' '')) (rng (CHR ''1'') (CHR ''9'')))))))
     else if d = CHR ''H'' then
       Grp ''H'' (Alt (Seq (ch (CHR ''2'')) (rng (CHR ''0'') (CHR ''3'')))
                 (Alt (Seq (rng (CHR ''0'') (CHR ''1'')) dg) dg))
     else if d = CHR ''I'' then
       Grp ''I'' (Alt (Seq (ch (CHR ''1'')) (rng (CHR ''0'') (CHR ''2'')))
                 (Alt (Seq (ch (CHR ''0'')) (rng (CHR ''1'') (CHR ''9'')))
                      (rng (CHR ''1'') (CHR ''9''))))
     else if d = CHR ''M'' then
       Grp ''M'' (Alt (Seq (rng (CHR ''0'') (CHR ''5'')) dg) dg)
     else if d = CHR ''p'' then
       Grp ''p'' (Alt (liti ''am'') (liti ''pm''))
     else Cls (\<lambda>x. False))"

function format_rx :: "string \<Rightarrow> rx" where
  "format_rx [] = Eps"
| "format_rx (c # cs) =
     (if c = CHR ''%'' then
        (case cs of [] \<Rightarrow> Cls (\<lambda>x. False) | d # ds \<Rightarrow> Seq (directive_rx d) (format_rx ds))
      else if is_space c then Seq (rplus ws) (format_rx (dropWhile is_space cs))
      else Seq (chi c) (format_rx cs))"
  by pat_completeness auto
termination
  by (relation "measure length") (auto simp: le_imp_less_Suc length_dropWhile_le)

definition hour12 :: "nat \<Rightarrow> string \<Rightarrow> nat" where
  "hour12 h ampm =
     (if ampm = [] \<or> ampm = ''am'' then (if h = 12 then 0 else h)
      else if ampm = ''pm'' then (if h \<noteq> 12 then h + 12 else h)
      else h)"

definition strptime :: "string \<Rightarrow> string \<Rightarrow> datetime option" where
  "strptime text fmt =
     (case rx_match (format_rx fmt) text of
        None \<Rightarrow> None
      | Some (e, rest) \<Rightarrow>
          if rest \<noteq> [] then None
          else
            let y = int_of_digits (grp e ''Y'');
                m = int_of_digits (grp e ''m'');
                d = int_of_digits (py_strip (grp e ''d''));
                h = (case map_of e ''I'' of
                       Some i \<Rightarrow> hour12 (int_of_digits i) (py_lower (grp e ''p''))
                     | None \<Rightarrow> int_of_digits (grp e ''H''));
                mi = int_of_digits (grp e ''M'')
            in mk_datetime y m d h mi)"


section \<open>app.py: parsing the time of a record\<close>

text \<open>
  A slot record is the dictionary the scraper writes and the cache returns: it always
  has the five keys below, each a string. Exceptions of the program are values of \<open>exn\<close>;
  a function that can raise returns \<open>exn + 'a\<close>.
\<close>

datatype exn = ValueError | OverflowError | AttributeError

record slot =
  court :: string
  time :: string
  status :: string
  link :: string
  raw_text :: string

definition parse_patterns :: "string list" where
  "parse_patterns =
     [''%Y-%m-%d %H:%M'', ''%Y-%m-%d %I:%M %p'', ''%m/%d/%Y %I:%M %p'',
      ''%m-%d-%Y %I:%M %p'', ''%d/%m/%Y %I:%M %p'', ''%d-%m-%Y %I:%M %p'']"

fun try_patterns :: "string \<Rightarrow> string list \<Rightarrow> datetime option" where
  "try_patterns v [] = None"
| "try_patterns v (p # ps) =
     (case strptime v p of Some t \<Rightarrow> Some t | None \<Rightarrow> try_patterns v ps)"

text \<open>The pattern \<open>(\d{1,2}):(\d{2})\s*(AM|PM|am|pm)\<close> of \<open>_parse_time\<close>.\<close>

definition clock_rx :: rx where
  "clock_rx =
     Seq (Grp ''1'' (Seq dg (ropt dg)))
    (Seq (ch (CHR '':''))
    (Seq (Grp ''2'' (Seq dg dg))
    (Seq (Star ws)
         (Grp ''3'' (Alt (lit ''AM'') (Alt (lit ''PM'') (Alt (lit ''am'') (lit ''pm''))))))))"

text \<open>\<open>now.replace(hour=h, minute=mi, second=0, microsecond=0)\<close>.\<close>

definition replace_time :: "datetime \<Rightarrow> nat \<Rightarrow> nat \<Rightarrow> exn + datetime" where
  "replace_time now h mi =
     (if h \<le> 23 \<and> mi \<le> 59
      then Inr (now\<lparr>hour := h, minute := mi, second := 0, microsecond := 0\<rparr>)
      else Inl ValueError)"

definition clock_hour :: "nat \<Rightarrow> string \<Rightarrow> nat" where
  "clock_hour h am_pm =
     (if am_pm = ''PM'' \<and> h \<noteq> 12 then h + 12
      else if am_pm = ''AM'' \<and> h = 12 then 0
      else h)"

text \<open>
  \<open>_parse_time(value)\<close>; \<open>now\<close> is what \<open>datetime.now()\<close> returns during the call.
  \<open>Inr None\<close> is the result \<open>None\<close>, \<open>Inl\<close> an exception that leaves the function.
\<close>

definition parse_time :: "datetime \<Rightarrow> string \<Rightarrow> exn + datetime option" where
  "parse_time now v =
     (if v = [] then Inr None
      else case try_patterns (py_strip v) parse_patterns of
        Some t \<Rightarrow> Inr (Some t)
      | None \<Rightarrow>
          (case rx_search clock_rx v of
             None \<Rightarrow> Inr None
           | Some e \<Rightarrow>
               (case replace_time now
                       (clock_hour (int_of_digits (grp e ''1'')) (py_upper (grp e ''3'')))
                       (int_of_digits (grp e ''2'')) of
                  Inl x \<Rightarrow> Inl x
                | Inr t \<Rightarrow> Inr (Some t))))"

text \<open>
  The first three lines of every aggregation function: parse each record, drop the
  records whose time is \<open>None\<close>, sort by the parsed time (\<open>list.sort\<close> is stable, as
  \<open>sort_key\<close> is). The clock is read once for a call of an aggregation function: \<open>now\<close>
  is the same for every record.
\<close>

fun parse_all :: "datetime \<Rightarrow> slot list \<Rightarrow> exn + (slot \<times> datetime option) list" where
  "parse_all now [] = Inr []"
| "parse_all now (x # xs) =
     (case parse_time now (time x) of
        Inl e \<Rightarrow> Inl e
      | Inr r \<Rightarrow>
          (case parse_all now xs of Inl e \<Rightarrow> Inl e | Inr rs \<Rightarrow> Inr ((x, r) # rs)))"

fun keep_parsed :: "(slot \<times> datetime option) list \<Rightarrow> (slot \<times> datetime) list" where
  "keep_parsed [] = []"
| "keep_parsed ((x, None) # rs) = keep_parsed rs"
| "keep_parsed ((x, Some t) # rs) = (x, t) # keep_parsed rs"

definition parsed_sorted :: "datetime \<Rightarrow> slot list \<Rightarrow> exn + (slot \<times> datetime) list" where
  "parsed_sorted now data =
     (case parse_all now data of
        Inl e \<Rightarrow> Inl e
      | Inr rs \<Rightarrow> Inr (sort_key (\<lambda>p. dt_key (snd p)) (keep_parsed rs)))"

definition same_date_hour :: "datetime \<Rightarrow> datetime \<Rightarrow> bool" where
  "same_date_hour a b = (dt_date a = dt_date b \<and> hour a = hour b)"

section \<open>app.py: find_one_hour_slots and find_two_hour_slots\<close>

text \<open>
  \<open>find_one_hour_slots\<close>: the loop over \<open>parsed\<close> with the set \<open>seen_times\<close> and the list
  \<open>one_hour_slots\<close>. An element of the result stands for the record with its
  \<open>formatted_time\<close>, which is a rendering of the parsed time paired with it.
\<close>

type_synonym hour_key = "date \<times> nat"

fun one_hour_loop :: "(slot \<times> datetime) list \<Rightarrow> (slot \<times> datetime) list \<Rightarrow> hour_key set \<Rightarrow>
    (slot \<times> datetime) list \<Rightarrow> exn + (slot \<times> datetime) list" where
  "one_hour_loop ps [] seen acc = Inr acc"
| "one_hour_loop ps ((item, dt) # rest) seen acc =
     (if (dt_date dt, hour dt) \<in> seen then one_hour_loop ps rest seen acc
      else case add_hour dt of
        None \<Rightarrow> Inl OverflowError
      | Some nh \<Rightarrow>
          if list_ex (\<lambda>(oi, odt). same_date_hour odt nh \<and> court item = court oi) ps
          then one_hour_loop ps rest (insert (dt_date nh, hour nh) seen) acc
          else one_hour_loop ps rest seen (acc @ [(item, dt)]))"

definition find_one_hour_slots :: "datetime \<Rightarrow> slot list \<Rightarrow> exn + (slot \<times> datetime) list" where
  "find_one_hour_slots now data =
     (case parsed_sorted now data of
        Inl e \<Rightarrow> Inl e
      | Inr ps \<Rightarrow>
          (case one_hour_loop ps ps {} [] of Inl e \<Rightarrow> Inl e | Inr r \<Rightarrow> Inr (take 3 r)))"

text \<open>
  \<open>find_two_hour_slots\<close>: the loop over \<open>enumerate(parsed)\<close> with the set \<open>seen_pairs\<close>. The
  inner loop stops at the first index \<open>j\<close> that passes every test. The list collects
  \<open>(i, j, end_time)\<close>; the dictionary appended is \<open>two_hour_slot\<close> of it.
\<close>

type_synonym pair_key = "datetime \<times> datetime \<times> string"

definition two_match :: "(slot \<times> datetime) list \<Rightarrow> pair_key set \<Rightarrow> nat \<Rightarrow> datetime \<Rightarrow> nat \<Rightarrow> bool" where
  "two_match ps seen i nh j =
     (i \<noteq> j \<and> court (fst (ps ! i)) = court (fst (ps ! j)) \<and>
      same_date_hour (snd (ps ! j)) nh \<and>
      (snd (ps ! i), snd (ps ! j), court (fst (ps ! i))) \<notin> seen)"

fun two_hour_loop :: "(slot \<times> datetime) list \<Rightarrow> nat list \<Rightarrow> pair_key set \<Rightarrow>
    (nat \<times> nat \<times> datetime) list \<Rightarrow> exn + (nat \<times> nat \<times> datetime) list" where
  "two_hour_loop ps [] seen acc = Inr acc"
| "two_hour_loop ps (i # is) seen acc =
     (case add_hour (snd (ps ! i)) of
        None \<Rightarrow> Inl OverflowError
      | Some nh \<Rightarrow>
          (case find (two_match ps seen i nh) [0..<length ps] of
             None \<Rightarrow> if 3 \<le> length acc then Inr acc else two_hour_loop ps is seen acc
           | Some j \<Rightarrow>
               (case add_hour (snd (ps ! j)) of
                  None \<Rightarrow> Inl OverflowError
                | Some e \<Rightarrow>
                    if 3 \<le> length (acc @ [(i, j, e)]) then Inr (acc @ [(i, j, e)])
                    else two_hour_loop ps is
                           (insert (snd (ps ! i), snd (ps ! j), court (fst (ps ! i))) seen)
                           (acc @ [(i, j, e)]))))"

record two_hour_slot =
  ts_court :: string
  ts_start_time :: string
  ts_end_time :: string
  ts_from :: datetime
  ts_to :: datetime
  ts_status :: string
  ts_link :: string

definition mk_two_hour_slot :: "(slot \<times> datetime) list \<Rightarrow> nat \<times> nat \<times> datetime \<Rightarrow> two_hour_slot" where
  "mk_two_hour_slot ps b = (case b of (i, j, e) \<Rightarrow>
     \<lparr>ts_court = court (fst (ps ! i)), ts_start_time = time (fst (ps ! i)),
      ts_end_time = time (fst (ps ! j)), ts_from = snd (ps ! i), ts_to = e,
      ts_status = ''Open (2 hours)'', ts_link = link (fst (ps ! i))\<rparr>)"

definition two_hour_pairs :: "(slot \<times> datetime) list \<Rightarrow> exn + (nat \<times> nat \<times> datetime) list" where
  "two_hour_pairs ps = two_hour_loop ps [0..<length ps] {} []"

definition find_two_hour_slots :: "datetime \<Rightarrow> slot list \<Rightarrow> exn + two_hour_slot list" where
  "find_two_hour_slots now data =
     (case parsed_sorted now data of
        Inl e \<Rightarrow> Inl e
      | Inr ps \<Rightarrow>
          (case two_hour_pairs ps of
             Inl e \<Rightarrow> Inl e
           | Inr bs \<Rightarrow> Inr (take 3 (map (mk_two_hour_slot ps) bs))))"


section \<open>app.py: group_slots_by_time_block\<close>

text \<open>
  The pairing phase: the loop over \<open>enumerate(parsed)\<close> with the set \<open>processed_indices\<close>.
  The list collects \<open>(i, j, end)\<close> for each dictionary appended to
  \<open>two_hour_slots_list\<close>, which is \<open>mk_block\<close> of it.
\<close>

definition pair_match :: "(slot \<times> datetime) list \<Rightarrow> nat set \<Rightarrow> nat \<Rightarrow> datetime \<Rightarrow> nat \<Rightarrow> bool" where
  "pair_match ps proc i nh j =
     (i \<noteq> j \<and> j \<notin> proc \<and> court (fst (ps ! i)) = court (fst (ps ! j)) \<and>
      same_date_hour (snd (ps ! j)) nh)"

fun pair_loop :: "(slot \<times> datetime) list \<Rightarrow> nat list \<Rightarrow> nat set \<Rightarrow>
    (nat \<times> nat \<times> datetime) list \<Rightarrow> exn + (nat \<times> nat \<times> datetime) list \<times> nat set" where
  "pair_loop ps [] proc acc = Inr (acc, proc)"
| "pair_loop ps (i # is) proc acc =
     (if i \<in> proc then pair_loop ps is proc acc
      else case add_hour (snd (ps ! i)) of
        None \<Rightarrow> Inl OverflowError
      | Some nh \<Rightarrow>
          (case find (pair_match ps proc i nh) [0..<length ps] of
             None \<Rightarrow> pair_loop ps is proc acc
           | Some j \<Rightarrow>
               (case add_hour (snd (ps ! j)) of
                  None \<Rightarrow> Inl OverflowError
                | Some e \<Rightarrow>
                    pair_loop ps is (insert j (insert i proc)) (acc @ [(i, j, e)]))))"

definition pairing :: "(slot \<times> datetime) list \<Rightarrow> exn + (nat \<times> nat \<times> datetime) list \<times> nat set" where
  "pairing ps = pair_loop ps [0..<length ps] {} []"

record block =
  b_start :: datetime
  b_end :: datetime
  b_court :: string
  b_start_time_str :: string
  b_end_time_str :: string
  b_link :: string

definition mk_block :: "(slot \<times> datetime) list \<Rightarrow> nat \<times> nat \<times> datetime \<Rightarrow> block" where
  "mk_block ps b = (case b of (i, j, e) \<Rightarrow>
     \<lparr>b_start = snd (ps ! i), b_end = e, b_court = court (fst (ps ! i)),
      b_start_time_str = time (fst (ps ! i)), b_end_time_str = time (fst (ps ! j)),
      b_link = link (fst (ps ! i))\<rparr>)"

text \<open>
  A \<open>defaultdict(list)\<close> filled in a loop, as the list of its items in insertion
  order.
\<close>

fun add_to_group :: "'k \<Rightarrow> 'a \<Rightarrow> ('k \<times> 'a list) list \<Rightarrow> ('k \<times> 'a list) list" where
  "add_to_group k x [] = [(k, [x])]"
| "add_to_group k x ((k', xs) # g) =
     (if k = k' then (k', xs @ [x]) # g else (k', xs) # add_to_group k x g)"

definition group_by :: "('a \<Rightarrow> 'k) \<Rightarrow> 'a list \<Rightarrow> ('k \<times> 'a list) list" where
  "group_by f xs = foldl (\<lambda>g x. add_to_group (f x) x g) [] xs"

text \<open>The indices the second loop over \<open>enumerate(parsed)\<close> does not skip.\<close>

definition one_hour_indices :: "(slot \<times> datetime) list \<Rightarrow> nat set \<Rightarrow> nat list" where
  "one_hour_indices ps proc = filter (\<lambda>i. i \<notin> proc) [0..<length ps]"

text \<open>
  \<open>sorted(courts, key=lambda x: int(re.search(r'\d+', x).group()))\<close>: AttributeError when
  a court name has no digit. \<open>c.split()[-1]\<close> is the last word of \<open>c\<close>.
\<close>

definition court_number :: "string \<Rightarrow> nat option" where
  "court_number c =
     (case rx_search (Grp ''0'' (rplus dg)) c of
        None \<Rightarrow> None
      | Some e \<Rightarrow> Some (int_of_digits (grp e ''0'')))"

definition sort_courts :: "string list \<Rightarrow> exn + string list" where
  "sort_courts cs =
     (if list_all (\<lambda>c. court_number c \<noteq> None) cs
      then Inr (sort_key (\<lambda>c. case court_number c of None \<Rightarrow> 0 | Some n \<Rightarrow> n) cs)
      else Inl AttributeError)"

definition last_word :: "string \<Rightarrow> string" where
  "last_word c = rev (takeWhile (\<lambda>x. \<not> is_space x) (dropWhile is_space (rev c)))"

fun join :: "string \<Rightarrow> string list \<Rightarrow> string" where
  "join sep [] = []"
| "join sep [x] = x"
| "join sep (x # y # ys) = x @ sep @ join sep (y # ys)"

definition event_title :: "string list \<Rightarrow> string" where
  "event_title courts =
     (if length courts = 1 then ''Court '' @ last_word (hd courts)
      else ''Courts '' @ join '', '' (map last_word courts))"

record event =
  title :: string
  ev_start :: datetime
  ev_end :: datetime
  resourceId :: string
  courts :: "string list"
  isTwoHour :: bool
  ev_link :: string

definition two_hour_event :: "block list \<Rightarrow> exn + event" where
  "two_hour_event slots =
     (case sort_courts (map b_court slots) of
        Inl x \<Rightarrow> Inl x
      | Inr cs \<Rightarrow>
          Inr \<lparr>title = event_title cs, ev_start = b_start (hd slots), ev_end = b_end (hd slots),
               resourceId = (if length cs = 1 then hd cs else ''Multiple''),
               courts = cs, isTwoHour = True, ev_link = b_link (hd slots)\<rparr>)"

text \<open>
  One-hour groups: \<open>None\<close> is the \<open>continue\<close> taken when the first record's time parses
  to \<open>None\<close>.
\<close>

definition one_hour_event :: "datetime \<Rightarrow> slot list \<Rightarrow> exn + event option" where
  "one_hour_event now items =
     (case sort_courts (map court items) of
        Inl x \<Rightarrow> Inl x
      | Inr cs \<Rightarrow>
          (case parse_time now (time (hd items)) of
             Inl x \<Rightarrow> Inl x
           | Inr None \<Rightarrow> Inr None
           | Inr (Some st) \<Rightarrow>
               (case add_hour st of
                  None \<Rightarrow> Inl OverflowError
                | Some en \<Rightarrow>
                    Inr (Some \<lparr>title = event_title cs, ev_start = st, ev_end = en,
                      resourceId = (if length cs = 1 then hd cs else ''Multiple''),
                      courts = cs, isTwoHour = False, ev_link = link (hd items)\<rparr>))))"

fun collect :: "('a \<Rightarrow> exn + 'b option) \<Rightarrow> 'a list \<Rightarrow> exn + 'b list" where
  "collect f [] = Inr []"
| "collect f (x # xs) =
     (case f x of
        Inl e \<Rightarrow> Inl e
      | Inr r \<Rightarrow>
          (case collect f xs of
             Inl e \<Rightarrow> Inl e
           | Inr rs \<Rightarrow> Inr ((case r of None \<Rightarrow> [] | Some y \<Rightarrow> [y]) @ rs)))"

definition two_hour_time_blocks :: "block list \<Rightarrow> (hour_key \<times> block list) list" where
  "two_hour_time_blocks bs = group_by (\<lambda>b. (dt_date (b_start b), hour (b_start b))) bs"

definition time_blocks :: "(slot \<times> datetime) list \<Rightarrow> nat set \<Rightarrow> (hour_key \<times> slot list) list" where
  "time_blocks ps proc =
     map (\<lambda>(k, xs). (k, map fst xs))
       (group_by (\<lambda>p. (dt_date (snd p), hour (snd p))) (map (\<lambda>i. ps ! i) (one_hour_indices ps proc)))"

definition group_slots_by_time_block :: "datetime \<Rightarrow> slot list \<Rightarrow> exn + event list" where
  "group_slots_by_time_block now data =
     (case parsed_sorted now data of
        Inl e \<Rightarrow> Inl e
      | Inr ps \<Rightarrow>
          (case pairing ps of
             Inl e \<Rightarrow> Inl e
           | Inr (bs, proc) \<Rightarrow>
               (case collect (\<lambda>(k, slots). case two_hour_event slots of
                                  Inl e \<Rightarrow> Inl e | Inr ev \<Rightarrow> Inr (Some ev))
                       (two_hour_time_blocks (map (mk_block ps) bs)) of
                  Inl e \<Rightarrow> Inl e
                | Inr evs2 \<Rightarrow>
                    (case collect (\<lambda>(k, items). one_hour_event now items) (time_blocks ps proc) of
                       Inl e \<Rightarrow> Inl e
                     | Inr evs1 \<Rightarrow> Inr (evs2 @ evs1)))))"


section \<open>scraper.py: checking which court a page shows\<close>

text \<open>
  What the browser shows, as far as \<open>_verify_court_on_page\<close> and
  \<open>_scrape_court_schedule\<close> read it. \<open>None\<close> for the title, a heading or the body is a
  driver call that raised (the handlers around them pass). \<open>pg_scheduler\<close> says whether
  \<open>wait_for_selector("#scheduler")\<close> returned; \<open>pg_grid\<close> is \<open>None\<close> when a locator call
  outside the per-cell handlers raised, which ends the function with the entries so far.
  A grid cell carries the day offset the code computes from its left position, the
  \<open>href\<close> of its first link and the URL its \<open>onclick\<close> quotes, if any.
\<close>

record span =
  sp_title :: "string option"
  sp_text :: string

record gridcell =
  gc_spans :: "span list"
  gc_day_offset :: int
  gc_href :: "string option"
  gc_onclick_url :: "string option"

record page =
  pg_title :: "string option"
  pg_headings :: "string option list"
  pg_body :: "string option"
  pg_url :: string
  pg_scheduler :: bool
  pg_grid :: "gridcell list option"

text \<open>
  \<open>re.search(r'Court\s+0?(\d+)', court_name, re.IGNORECASE)\<close> and the three patterns
  \<open>f"Court\\s+{court_num:02d}"\<close>, \<open>f"Court\\s+{court_num}"\<close>, \<open>f"Court\\s+0{court_num}"\<close>;
  without a number the pattern is \<open>re.escape(court_name)\<close>. All are searched ignoring
  case.
\<close>

definition court_name_rx :: rx where
  "court_name_rx =
     Seq (liti ''Court'') (Seq (rplus ws) (Seq (ropt (ch (CHR ''0''))) (Grp ''1'' (rplus dg))))"

definition court_pat :: "string \<Rightarrow> rx" where
  "court_pat num = Seq (liti ''Court'') (Seq (rplus ws) (liti num))"

definition court_patterns :: "string \<Rightarrow> rx list" where
  "court_patterns court_name =
     (case rx_search court_name_rx court_name of
        Some e \<Rightarrow>
          (let court_num = int_of_digits (grp e ''1'')
           in [court_pat (zpad 2 (str_nat court_num)), court_pat (str_nat court_num),
               court_pat (''0'' @ str_nat court_num)])
      | None \<Rightarrow> [liti court_name])"

definition any_found :: "rx list \<Rightarrow> string \<Rightarrow> bool" where
  "any_found pats text = list_ex (\<lambda>r. rx_found r text) pats"

text \<open>\<open>re.findall(r'Court\s+\d+', body_text, re.IGNORECASE)\<close>.\<close>

definition all_courts_rx :: rx where
  "all_courts_rx = Seq (liti ''Court'') (Seq (rplus ws) (rplus dg))"

definition verify_court_on_page :: "page \<Rightarrow> string \<Rightarrow> bool" where
  "verify_court_on_page pg court_name =
     (let pats = court_patterns court_name in
      if (case pg_title pg of None \<Rightarrow> False | Some t \<Rightarrow> any_found pats t) then True
      else if list_ex (\<lambda>h. case h of None \<Rightarrow> False | Some t \<Rightarrow> any_found pats t)
                (pg_headings pg) then True
      else if (case pg_body pg of
                 None \<Rightarrow> False
               | Some b \<Rightarrow> any_found pats b \<and> rx_count all_courts_rx b \<le> 2) then True
      else any_found pats (pg_url pg))"

section \<open>scraper.py: extracting the slots of a page\<close>

text \<open>
  Times are compared as the booking site's local wall-clock times: \<open>now\<close> is
  \<open>datetime.now(vancouver_tz)\<close> read as local time, and the UTC offset is taken to be the
  same over the window.
\<close>

definition classify :: "string \<Rightarrow> string option" where
  "classify span_text =
     (if contains ''bookable 24hrs in advance'' span_text \<or>
         contains ''bookable 24 hours in advance'' span_text then Some ''Bookable in 24h''
      else if contains ''book now'' span_text \<or>
              (contains ''book'' span_text \<and> length span_text < 50) then Some ''Open''
      else None)"

text \<open>The pattern \<open>(\d{1,2}):00\s*(AM|PM)\<close> searched in the title of a span.\<close>

definition slot_time_rx :: rx where
  "slot_time_rx =
     Seq (Grp ''1'' (Seq dg (ropt dg)))
    (Seq (lit '':00'')
    (Seq (Star ws) (Grp ''2'' (Alt (lit ''AM'') (lit ''PM'')))))"

definition slot_hour :: "nat \<Rightarrow> string \<Rightarrow> nat" where
  "slot_hour h period =
     (if period = ''PM'' \<and> h \<noteq> 12 then h + 12
      else if period = ''AM'' \<and> h = 12 then 0
      else h)"

text \<open>
  \<open>slot_datetime\<close> is the value the \<open>try\<close> block builds from \<open>time_slot_str\<close>, which is
  \<open>f"{g1}:00 {g2}"\<close> for the two groups of the match: the hour is \<open>int(g1)\<close>, the minute 0.
  \<open>None\<close> is the ValueError of the \<open>datetime\<close> constructor.
\<close>

definition slot_datetime :: "date \<Rightarrow> string \<Rightarrow> string \<Rightarrow> datetime option" where
  "slot_datetime slot_date g1 g2 = (case slot_date of (y, m, d) \<Rightarrow>
     mk_datetime y m d (slot_hour (int_of_digits g1) g2) 0)"

text \<open>
  The two \<open>continue\<close>s of the \<open>try\<close> block; its handler logs and lets the record through
  ("including anyway").
\<close>

definition in_window :: "datetime \<Rightarrow> datetime \<Rightarrow> datetime option \<Rightarrow> bool" where
  "in_window now max_datetime sd =
     (case sd of
        None \<Rightarrow> True
      | Some t \<Rightarrow> \<not> dt_key max_datetime < dt_key t \<and> \<not> dt_key t < dt_key now)"

text \<open>
  What is known of a span before the window check: its status, the two groups of the
  time match and the date of its column. \<open>None\<close> is a \<open>continue\<close>, or the OverflowError
  of the date addition, which the handler of the span catches.
\<close>

definition span_title :: "span \<Rightarrow> string" where
  "span_title sp = (case sp_title sp of None \<Rightarrow> [] | Some t \<Rightarrow> t)"

definition span_candidate :: "datetime \<Rightarrow> gridcell \<Rightarrow> span \<Rightarrow> (string \<times> string \<times> string \<times> date) option" where
  "span_candidate now gc sp =
     (if span_title sp = [] \<or>
         (\<not> contains ''AM'' (span_title sp) \<and> \<not> contains ''PM'' (span_title sp)) then None
      else case classify (py_lower (py_strip (sp_text sp))) of
        None \<Rightarrow> None
      | Some st \<Rightarrow>
          (case rx_search slot_time_rx (span_title sp) of
             None \<Rightarrow> None
           | Some e \<Rightarrow>
               (case add_days (gc_day_offset gc) (dt_date now) of
                  None \<Rightarrow> None
                | Some slot_date \<Rightarrow> Some (st, grp e ''1'', grp e ''2'', slot_date))))"

definition resolve_link :: "string \<Rightarrow> gridcell \<Rightarrow> string" where
  "resolve_link url gc =
     (case gc_href gc of
        Some h \<Rightarrow> h
      | None \<Rightarrow> (case gc_onclick_url gc of Some u \<Rightarrow> u | None \<Rightarrow> url))"

definition mk_entry :: "string \<Rightarrow> string \<Rightarrow> gridcell \<Rightarrow> span \<Rightarrow> string \<times> string \<times> string \<times> date \<Rightarrow> slot" where
  "mk_entry court_name url gc sp c = (case c of (st, g1, g2, slot_date) \<Rightarrow>
     \<lparr>court = court_name, time = iso_date slot_date @ '' '' @ g1 @ '':00 '' @ g2,
      status = st, link = resolve_link url gc, raw_text = sp_text sp\<rparr>)"

definition scrape_span :: "string \<Rightarrow> string \<Rightarrow> datetime \<Rightarrow> datetime \<Rightarrow> gridcell \<Rightarrow> span \<Rightarrow> slot option" where
  "scrape_span court_name url now max_datetime gc sp =
     (case span_candidate now gc sp of
        None \<Rightarrow> None
      | Some (st, g1, g2, slot_date) \<Rightarrow>
          if in_window now max_datetime (slot_datetime slot_date g1 g2)
          then Some (mk_entry court_name url gc sp (st, g1, g2, slot_date))
          else None)"

definition scrape_cells :: "string \<Rightarrow> string \<Rightarrow> datetime \<Rightarrow> datetime \<Rightarrow> gridcell list \<Rightarrow> slot list" where
  "scrape_cells court_name url now max_datetime cells =
     concat (map (\<lambda>gc. List.map_filter (scrape_span court_name url now max_datetime gc)
                          (gc_spans gc)) cells)"

definition scrape_court_schedule :: "page \<Rightarrow> string \<Rightarrow> datetime \<Rightarrow> slot list" where
  "scrape_court_schedule pg court_name now =
     (if \<not> verify_court_on_page pg court_name then []
      else if \<not> pg_scheduler pg then []
      else case add_72h now of
        None \<Rightarrow> []
      | Some max_datetime \<Rightarrow>
          (case pg_grid pg of
             None \<Rightarrow> []
           | Some cells \<Rightarrow> scrape_cells court_name (pg_url pg) now max_datetime cells))"


section \<open>scraper.py: clean_and_upload_to_supabase\<close>

text \<open>
  The table \<open>court_slots\<close> is the list of its rows. A client is \<open>None\<close> when
  \<open>get_supabase_client\<close> returns \<open>None\<close>; otherwise it holds the rows and says whether the
  delete request and the insert request of this run raise. \<open>start_time\<close> is kept as the
  datetime whose \<open>isoformat()\<close> the row stores, \<open>updated_at\<close> is the clock reading
  \<open>utc_now\<close>.
\<close>

record row =
  court_name :: string
  start_time :: datetime
  row_status :: string
  booking_link :: string
  row_raw_text :: string
  updated_at :: datetime

record supabase =
  sb_rows :: "row list"
  sb_delete_raises :: bool
  sb_insert_raises :: bool

definition time_formats :: "string list" where
  "time_formats = [''%Y-%m-%d %I:%M %p'', ''%Y-%m-%d %H:%M'']"

fun clean_rows :: "datetime \<Rightarrow> slot list \<Rightarrow> row list" where
  "clean_rows utc_now [] = []"
| "clean_rows utc_now (item # items) =
     (if time item = [] then clean_rows utc_now items
      else case try_patterns (time item) time_formats of
        None \<Rightarrow> clean_rows utc_now items
      | Some dt_object \<Rightarrow>
          \<lparr>court_name = court item, start_time = dt_object, row_status = status item,
           booking_link = link item, row_raw_text = raw_text item, updated_at = utc_now\<rparr>
          # clean_rows utc_now items)"

definition old_date :: datetime where
  "old_date = \<lparr>year = 1970, month = 1, day = 1, hour = 0, minute = 0, second = 0,
               microsecond = 0\<rparr>"

text \<open>\<open>delete().gte('start_time', old_date)\<close> removes the rows from \<open>old_date\<close> on.\<close>

definition delete_gte :: "row list \<Rightarrow> row list" where
  "delete_gte rows = filter (\<lambda>r. \<not> dt_key old_date \<le> dt_key (start_time r)) rows"

definition clean_and_upload_to_supabase ::
    "supabase option \<Rightarrow> datetime \<Rightarrow> slot list \<Rightarrow> bool \<times> supabase option" where
  "clean_and_upload_to_supabase client utc_now json_data =
     (case client of
        None \<Rightarrow> (False, None)
      | Some sb \<Rightarrow>
          (let rows = clean_rows utc_now json_data;
               sb1 = (if sb_delete_raises sb then sb
                      else sb\<lparr>sb_rows := delete_gte (sb_rows sb)\<rparr>)
           in if rows = [] then (False, Some sb1)
              else if sb_insert_raises sb1 then (False, Some sb1)
              else (True, Some (sb1\<lparr>sb_rows := sb_rows sb1 @ rows\<rparr>))))"

section \<open>scraper.py: process_notifications\<close>

text \<open>
  A subscription is a row of the table \<open>subscriptions\<close>. A request is one call of
  \<open>requests.post\<close> to the bot API: the chat it goes to and the slot and subscription its
  message is made from. A call that fails is logged and the loops go on, so the calls
  made do not depend on which of them fail. \<open>client\<close> and \<open>bot_token\<close> say whether the
  Supabase client and BOT_TOKEN are there; \<open>fetched\<close> is the result of reading the
  subscriptions, \<open>None\<close> when the read raises.
\<close>

record subscription =
  chat_id :: string
  day_of_week :: string
  start_hour :: int
  end_hour :: int

record request =
  rq_chat_id :: string
  rq_slot :: slot
  rq_sub :: subscription

definition sub_hit :: "datetime \<Rightarrow> subscription \<Rightarrow> bool" where
  "sub_hit dt_object sub =
     (day_name (dt_date dt_object) = day_of_week sub \<and>
      start_hour sub \<le> int (hour dt_object) \<and> int (hour dt_object) \<le> end_hour sub)"

fun notify_subs :: "slot \<Rightarrow> datetime \<Rightarrow> subscription list \<Rightarrow> request list" where
  "notify_subs sl dt_object [] = []"
| "notify_subs sl dt_object (sub # subs) =
     (if sub_hit dt_object sub
      then \<lparr>rq_chat_id = chat_id sub, rq_slot = sl, rq_sub = sub\<rparr> # notify_subs sl dt_object subs
      else notify_subs sl dt_object subs)"

fun notify_slots :: "subscription list \<Rightarrow> slot list \<Rightarrow> request list" where
  "notify_slots subs [] = []"
| "notify_slots subs (sl # sls) =
     (if time sl = [] then notify_slots subs sls
      else case try_patterns (time sl) time_formats of
        None \<Rightarrow> notify_slots subs sls
      | Some dt_object \<Rightarrow> notify_subs sl dt_object subs @ notify_slots subs sls)"

definition process_notifications ::
    "bool \<Rightarrow> bool \<Rightarrow> subscription list option \<Rightarrow> slot list \<Rightarrow> request list" where
  "process_notifications client bot_token fetched new_slots =
     (if \<not> client then []
      else if \<not> bot_token then []
      else case fetched of
        None \<Rightarrow> []
      | Some subscriptions \<Rightarrow>
          if subscriptions = [] then [] else notify_slots subscriptions new_slots)"

text \<open>
  The matching rule in the words of the specification: the slot's day of the week is
  the subscription's and its hour lies between the subscription's hours.
\<close>

definition spec_match :: "slot \<Rightarrow> subscription \<Rightarrow> bool" where
  "spec_match sl sub =
     (case (if time sl = [] then None else try_patterns (time sl) time_formats) of
        None \<Rightarrow> False
      | Some t \<Rightarrow> day_name (dt_date t) = day_of_week sub \<and>
                  start_hour sub \<le> int (hour t) \<and> int (hour t) \<le> end_hour sub)"


section \<open>Notions used in the statements and the proofs\<close>

text \<open>The positions of \<open>parsed\<close> that a list of blocks uses, first and second hour.\<close>

definition block_indices :: "(nat \<times> nat \<times> datetime) list \<Rightarrow> nat list" where
  "block_indices bs = concat (map (\<lambda>(i, j, e). [i, j]) bs)"

text \<open>
  The list \<open>two_hour_slots_list\<close> of \<open>group_slots_by_time_block\<close>, as a function of the
  input.
\<close>

definition two_hour_blocks :: "datetime \<Rightarrow> slot list \<Rightarrow> exn + block list" where
  "two_hour_blocks now data =
     (case parsed_sorted now data of
        Inl e \<Rightarrow> Inl e
      | Inr ps \<Rightarrow>
          (case pairing ps of
             Inl e \<Rightarrow> Inl e
           | Inr (bs, proc) \<Rightarrow> Inr (map (mk_block ps) bs)))"

text \<open>
  For the proofs: the pairing written on the list of the records not yet consumed. The
  head looks for the first later record of its court in the next hour and both leave the
  list. \<open>pairing_as_pair_records\<close> shows that on a list sorted by time this is what the
  loop over indices computes. \<open>in_court c\<close> selects the records of one court.
\<close>

definition hour_match :: "slot \<times> datetime \<Rightarrow> datetime \<Rightarrow> slot \<times> datetime \<Rightarrow> bool" where
  "hour_match x nh y = (court (fst x) = court (fst y) \<and> same_date_hour (snd y) nh)"

definition block_of :: "slot \<times> datetime \<Rightarrow> slot \<times> datetime \<Rightarrow> datetime \<Rightarrow> block" where
  "block_of x y e =
     \<lparr>b_start = snd x, b_end = e, b_court = court (fst x), b_start_time_str = time (fst x),
      b_end_time_str = time (fst y), b_link = link (fst x)\<rparr>"

function pair_records :: "(slot \<times> datetime) list \<Rightarrow> exn + block list" where
  "pair_records [] = Inr []"
| "pair_records (x # xs) =
     (case add_hour (snd x) of
        None \<Rightarrow> Inl OverflowError
      | Some nh \<Rightarrow>
          (case find (hour_match x nh) xs of
             None \<Rightarrow> pair_records xs
           | Some y \<Rightarrow>
               (case add_hour (snd y) of
                  None \<Rightarrow> Inl OverflowError
                | Some e \<Rightarrow>
                    (case pair_records (remove1 y xs) of
                       Inl err \<Rightarrow> Inl err
                     | Inr bs \<Rightarrow> Inr (block_of x y e # bs)))))"
  by pat_completeness auto
termination
  by (relation "measure length") (auto simp: length_remove1 le_imp_less_Suc)

definition in_court :: "string \<Rightarrow> slot \<times> datetime \<Rightarrow> bool" where
  "in_court c x = (court (fst x) = c)"

section \<open>Inputs of the examples\<close>

definition at_time :: "nat \<Rightarrow> nat \<Rightarrow> nat \<Rightarrow> nat \<Rightarrow> nat \<Rightarrow> datetime" where
  "at_time y m d h mi =
     \<lparr>year = y, month = m, day = d, hour = h, minute = mi, second = 0, microsecond = 0\<rparr>"

definition slot_at :: "string \<Rightarrow> string \<Rightarrow> slot" where
  "slot_at c t = \<lparr>court = c, time = t, status = ''Open'', link = ''#'', raw_text = ''Book Now''\<rparr>"

definition slot_link :: "string \<Rightarrow> string \<Rightarrow> string \<Rightarrow> slot" where
  "slot_link c t l = \<lparr>court = c, time = t, status = ''Open'', link = l, raw_text = ''Book Now''\<rparr>"

definition wednesday_sub :: subscription where
  "wednesday_sub =
     \<lparr>chat_id = ''42'', day_of_week = ''Wednesday'', start_hour = 8, end_hour = 22\<rparr>"

definition stored_row :: row where
  "stored_row =
     \<lparr>court_name = ''Court 03'', start_time = at_time 2025 12 15 9 0, row_status = ''Open'',
      booking_link = ''#'', row_raw_text = ''Book Now'', updated_at = at_time 2025 12 14 20 0\<rparr>"

definition stored :: supabase where
  "stored = \<lparr>sb_rows = [stored_row], sb_delete_raises = False, sb_insert_raises = False\<rparr>"

definition new_row :: row where
  "new_row =
     \<lparr>court_name = ''Court 01'', start_time = at_time 2025 12 17 9 0, row_status = ''Open'',
      booking_link = ''#'', row_raw_text = ''Book Now'', updated_at = at_time 2025 12 16 20 0\<rparr>"

definition bookable :: "string \<Rightarrow> span" where
  "bookable ti = \<lparr>sp_title = Some ti, sp_text = ''Book Now''\<rparr>"

definition bookable_cell :: "string \<Rightarrow> int \<Rightarrow> gridcell" where
  "bookable_cell ti off =
     \<lparr>gc_spans = [bookable ti], gc_day_offset = off, gc_href = None, gc_onclick_url = None\<rparr>"

definition site_url :: string where
  "site_url = ''https://ubc.perfectmind.com/facility''"

definition court_page :: "string \<Rightarrow> gridcell list \<Rightarrow> page" where
  "court_page shown cells =
     \<lparr>pg_title = Some shown, pg_headings = [], pg_body = None,
      pg_url = site_url, pg_scheduler = True,
      pg_grid = Some cells\<rparr>"

definition entry_at :: "string \<Rightarrow> string \<Rightarrow> slot" where
  "entry_at c t = \<lparr>court = c, time = t, status = ''Open'',
     link = site_url, raw_text = ''Book Now''\<rparr>"

definition hours_345 :: "slot list" where
  "hours_345 = [slot_at ''Court 01'' ''2025-12-17 3:00 PM'', slot_at ''Court 01'' ''2025-12-17 4:00 PM'',
                slot_at ''Court 01'' ''2025-12-17 5:00 PM'']"

definition two_courts :: "slot list" where
  "two_courts = [slot_at ''Court 01'' ''2025-12-17 3:00 PM'', slot_at ''Court 01'' ''2025-12-17 4:00 PM'',
                 slot_at ''Court 02'' ''2025-12-17 4:00 PM'']"

definition parsed_345 :: "(slot \<times> datetime) list" where
  "parsed_345 = [(slot_at ''Court 01'' ''2025-12-17 3:00 PM'', at_time 2025 12 17 15 0),
                 (slot_at ''Court 01'' ''2025-12-17 4:00 PM'', at_time 2025 12 17 16 0),
                 (slot_at ''Court 01'' ''2025-12-17 5:00 PM'', at_time 2025 12 17 17 0)]"

definition parsed_two_courts :: "(slot \<times> datetime) list" where
  "parsed_two_courts = [(slot_at ''Court 01'' ''2025-12-17 3:00 PM'', at_time 2025 12 17 15 0),
                 (slot_at ''Court 01'' ''2025-12-17 4:00 PM'', at_time 2025 12 17 16 0),
                 (slot_at ''Court 02'' ''2025-12-17 4:00 PM'', at_time 2025 12 17 16 0)]"

definition dup_slots :: "slot list" where
  "dup_slots = [slot_link ''Court 01'' ''2025-12-17 3:00 PM'' ''a'',
                slot_link ''Court 01'' ''2025-12-17 3:00 PM'' ''b'',
                slot_link ''Court 01'' ''2025-12-17 4:00 PM'' ''c'']"

definition dup_swapped :: "slot list" where
  "dup_swapped = [slot_link ''Court 01'' ''2025-12-17 3:00 PM'' ''b'',
                  slot_link ''Court 01'' ''2025-12-17 3:00 PM'' ''a'',
                  slot_link ''Court 01'' ''2025-12-17 4:00 PM'' ''c'']"

definition court_01_3_to_5 :: "string \<Rightarrow> block" where
  "court_01_3_to_5 l =
     \<lparr>b_start = at_time 2025 12 17 15 0, b_end = at_time 2025 12 17 17 0, b_court = ''Court 01'',
      b_start_time_str = ''2025-12-17 3:00 PM'', b_end_time_str = ''2025-12-17 4:00 PM'',
      b_link = l\<rparr>"

section \<open>Properties of the notification matcher\<close>

lemma notify_subs_eq:
  "notify_subs sl t subs =
     [\<lparr>rq_chat_id = chat_id u, rq_slot = sl, rq_sub = u\<rparr>. u \<leftarrow> subs, sub_hit t u]"
  by (induction subs) simp_all

lemma spec_match_parsed:
  "time sl \<noteq> [] \<Longrightarrow> try_patterns (time sl) time_formats = Some t \<Longrightarrow>
     spec_match sl u = sub_hit t u"
  by (simp add: spec_match_def sub_hit_def)

lemma spec_match_unparsed:
  "time sl = [] \<or> try_patterns (time sl) time_formats = None \<Longrightarrow> \<not> spec_match sl u"
  by (auto simp: spec_match_def)

lemma notify_slots_eq:
  "notify_slots subs sls =
     [\<lparr>rq_chat_id = chat_id u, rq_slot = s, rq_sub = u\<rparr>. s \<leftarrow> sls, u \<leftarrow> subs, spec_match s u]"
proof (induction sls)
  case Nil
  then show ?case by simp
next
  case (Cons sl sls)
  show ?case
  proof (cases "time sl = [] \<or> try_patterns (time sl) time_formats = None")
    case True
    then have "\<And>u. \<not> spec_match sl u" by (rule spec_match_unparsed)
    with True Cons show ?thesis by auto
  next
    case False
    then obtain t where t: "time sl \<noteq> []" "try_patterns (time sl) time_formats = Some t"
      by auto
    then have "\<And>u. spec_match sl u = sub_hit t u" by (rule spec_match_parsed)
    with t Cons show ?thesis by (simp add: notify_subs_eq)
  qed
qed

lemma match_9am: "spec_match (slot_at ''Court 01'' ''2025-12-17 09:00 AM'') wednesday_sub"
  by code_simp

lemma no_match_7am: "\<not> spec_match (slot_at ''Court 01'' ''2025-12-17 07:00 AM'') wednesday_sub"
  by code_simp

text \<open>
  C8. When the Supabase client and the bot token are there and the subscriptions were
  read, \<open>process_notifications\<close> makes one request for each pair of a slot of the list
  and a subscription of the snapshot that match (same day of the week, hour between the
  subscription's hours, both ends included), in the order of the two lists, and no other
  request. A slot whose time does not parse matches nothing.
\<close>

theorem one_request_per_matching_pair:
  "process_notifications True True (Some subs) new_slots =
     [\<lparr>rq_chat_id = chat_id u, rq_slot = s, rq_sub = u\<rparr>.
        s \<leftarrow> new_slots, u \<leftarrow> subs, spec_match s u]"
proof (cases "subs = []")
  case True
  then show ?thesis by (simp add: process_notifications_def)
next
  case False
  then show ?thesis by (simp add: process_notifications_def notify_slots_eq)
qed

text \<open>
  The subscription Wednesday 8 to 22 against the slots of Wednesday 2025-12-17 at 09:00 AM
  and at 07:00 AM: one request, for the first.
\<close>

theorem one_request_per_matching_pair_witness:
  "process_notifications True True (Some [wednesday_sub])
     [slot_at ''Court 01'' ''2025-12-17 09:00 AM'', slot_at ''Court 01'' ''2025-12-17 07:00 AM''] =
   [\<lparr>rq_chat_id = ''42'', rq_slot = slot_at ''Court 01'' ''2025-12-17 09:00 AM'',
     rq_sub = wednesday_sub\<rparr>]"
  unfolding one_request_per_matching_pair using match_9am no_match_7am
  by (simp add: wednesday_sub_def)

section \<open>Properties of the upload\<close>

lemma clean_rows_new: "clean_rows (at_time 2025 12 16 20 0)
    [slot_at ''Court 01'' ''2025-12-17 09:00 AM''] = [new_row]"
  by code_simp

lemma delete_gte_stored: "delete_gte [stored_row] = []"
  by code_simp

text \<open>
  C3, as the code has it. Without a client nothing is written. With one, the delete
  request comes first and the insert second, each on its own: when both succeed and at
  least one record was cleaned, the table holds the rows dated before 1970 that it held
  and the cleaned rows of the new snapshot; when the delete succeeded and no record was
  cleaned, or the insert raises, the function returns False and the rows dated from 1970
  on are gone; when the delete raises, the run goes on and the insert adds to the old
  rows.
\<close>

theorem upload_effect:
  "clean_and_upload_to_supabase None utc_now data = (False, None) \<and>
   (\<not> sb_delete_raises sb \<longrightarrow> clean_rows utc_now data \<noteq> [] \<longrightarrow> \<not> sb_insert_raises sb \<longrightarrow>
      clean_and_upload_to_supabase (Some sb) utc_now data =
        (True, Some (sb\<lparr>sb_rows := delete_gte (sb_rows sb) @ clean_rows utc_now data\<rparr>))) \<and>
   (\<not> sb_delete_raises sb \<longrightarrow> clean_rows utc_now data = [] \<or> sb_insert_raises sb \<longrightarrow>
      clean_and_upload_to_supabase (Some sb) utc_now data =
        (False, Some (sb\<lparr>sb_rows := delete_gte (sb_rows sb)\<rparr>))) \<and>
   (sb_delete_raises sb \<longrightarrow> clean_rows utc_now data \<noteq> [] \<longrightarrow> \<not> sb_insert_raises sb \<longrightarrow>
      clean_and_upload_to_supabase (Some sb) utc_now data =
        (True, Some (sb\<lparr>sb_rows := sb_rows sb @ clean_rows utc_now data\<rparr>))) \<and>
   (sb_delete_raises sb \<longrightarrow> clean_rows utc_now data = [] \<or> sb_insert_raises sb \<longrightarrow>
      clean_and_upload_to_supabase (Some sb) utc_now data = (False, Some sb))"
  by (simp add: clean_and_upload_to_supabase_def Let_def)

text \<open>
  A run that succeeds, a run whose insert raises, a run whose delete raises, and a run
  whose delete and insert both raise, on a table that holds one row.
\<close>

theorem upload_effect_witness:
  "clean_and_upload_to_supabase (Some stored) (at_time 2025 12 16 20 0)
       [slot_at ''Court 01'' ''2025-12-17 09:00 AM''] =
     (True, Some (stored\<lparr>sb_rows := [new_row]\<rparr>)) \<and>
   clean_and_upload_to_supabase (Some (stored\<lparr>sb_insert_raises := True\<rparr>))
       (at_time 2025 12 16 20 0) [slot_at ''Court 01'' ''2025-12-17 09:00 AM''] =
     (False, Some (stored\<lparr>sb_insert_raises := True, sb_rows := []\<rparr>)) \<and>
   clean_and_upload_to_supabase (Some (stored\<lparr>sb_delete_raises := True\<rparr>))
       (at_time 2025 12 16 20 0) [slot_at ''Court 01'' ''2025-12-17 09:00 AM''] =
     (True, Some (stored\<lparr>sb_delete_raises := True, sb_rows := [stored_row, new_row]\<rparr>)) \<and>
   clean_and_upload_to_supabase (Some (stored\<lparr>sb_delete_raises := True, sb_insert_raises := True\<rparr>))
       (at_time 2025 12 16 20 0) [slot_at ''Court 01'' ''2025-12-17 09:00 AM''] =
     (False, Some (stored\<lparr>sb_delete_raises := True, sb_insert_raises := True\<rparr>))"
proof -
  let ?now = "at_time 2025 12 16 20 0"
  let ?data = "[slot_at ''Court 01'' ''2025-12-17 09:00 AM'']"
  have cr: "clean_rows ?now ?data = [new_row]" by (rule clean_rows_new)
  note eff = upload_effect [of ?now ?data]
  have a: "clean_and_upload_to_supabase (Some stored) ?now ?data =
      (True, Some (stored\<lparr>sb_rows := [new_row]\<rparr>))"
    using eff [of stored] unfolding cr by (simp add: stored_def delete_gte_stored)
  have b: "clean_and_upload_to_supabase (Some (stored\<lparr>sb_insert_raises := True\<rparr>)) ?now ?data =
      (False, Some (stored\<lparr>sb_insert_raises := True, sb_rows := []\<rparr>))"
    using eff [of "stored\<lparr>sb_insert_raises := True\<rparr>"] unfolding cr
    by (simp add: stored_def delete_gte_stored)
  have c: "clean_and_upload_to_supabase (Some (stored\<lparr>sb_delete_raises := True\<rparr>)) ?now ?data =
      (True, Some (stored\<lparr>sb_delete_raises := True, sb_rows := [stored_row, new_row]\<rparr>))"
    using eff [of "stored\<lparr>sb_delete_raises := True\<rparr>"] unfolding cr
    by (simp add: stored_def)
  have d: "clean_and_upload_to_supabase
      (Some (stored\<lparr>sb_delete_raises := True, sb_insert_raises := True\<rparr>)) ?now ?data =
      (False, Some (stored\<lparr>sb_delete_raises := True, sb_insert_raises := True\<rparr>))"
    using eff [of "stored\<lparr>sb_delete_raises := True, sb_insert_raises := True\<rparr>"] unfolding cr
    by (simp add: stored_def)
  from a b c d show ?thesis by simp
qed

text \<open>
  The claim as stated fails: a run with nothing to upload returns False (a failed run)
  after it has emptied the table.
\<close>

theorem upload_failed_run_counterexample:
  "clean_and_upload_to_supabase (Some stored) (at_time 2025 12 16 20 0) [] =
     (False, Some (stored\<lparr>sb_rows := []\<rparr>)) \<and>
   sb_rows stored = [stored_row]"
  by (simp add: clean_and_upload_to_supabase_def stored_def delete_gte_stored)

section \<open>Properties of _parse_time\<close>

lemma no_date_3pm: "try_patterns (py_strip ''3:00 PM'') parse_patterns = None"
  by code_simp

lemma clock_3pm:
  "rx_search clock_rx ''3:00 PM'' = Some [(''3'', ''PM''), (''2'', ''00''), (''1'', ''3'')]"
  by code_simp

lemma clock_3pm_hour:
  "clock_hour (int_of_digits (grp [(''3'', ''PM''), (''2'', ''00''), (''1'', ''3'')] ''1''))
     (py_upper (grp [(''3'', ''PM''), (''2'', ''00''), (''1'', ''3'')] ''3'')) = 15"
  by code_simp

lemma clock_3pm_minute:
  "int_of_digits (grp [(''3'', ''PM''), (''2'', ''00''), (''1'', ''3'')] ''2'') = 0"
  by code_simp

text \<open>
  C10, as the code has it. \<open>_parse_time\<close> returns \<open>None\<close> exactly for the empty string and
  for a string that none of the six patterns parses and in which no \<open>h:mm AM/PM\<close> piece
  is found. When no pattern parses the string and the first such piece gives an hour
  (after the 12-hour conversion) up to 23 and a minute up to 59, the result is today's
  date at that hour and minute, seconds and microseconds zero.
\<close>

theorem parse_time_dateless:
  "(parse_time now v = Inr None \<longleftrightarrow>
      v = [] \<or> (try_patterns (py_strip v) parse_patterns = None \<and> rx_search clock_rx v = None)) \<and>
   (v \<noteq> [] \<longrightarrow> try_patterns (py_strip v) parse_patterns = None \<longrightarrow>
    rx_search clock_rx v = Some e \<longrightarrow>
    clock_hour (int_of_digits (grp e ''1'')) (py_upper (grp e ''3'')) \<le> 23 \<longrightarrow>
    int_of_digits (grp e ''2'') \<le> 59 \<longrightarrow>
      parse_time now v =
        Inr (Some (now\<lparr>hour := clock_hour (int_of_digits (grp e ''1'')) (py_upper (grp e ''3'')),
                       minute := int_of_digits (grp e ''2''), second := 0, microsecond := 0\<rparr>)))"
  by (auto simp: parse_time_def replace_time_def split: option.splits sum.splits)

theorem parse_time_dateless_witness:
  "parse_time \<lparr>year = 2025, month = 12, day = 16, hour = 10, minute = 5, second = 7,
               microsecond = 9\<rparr> ''3:00 PM'' =
     Inr (Some (at_time 2025 12 16 15 0))"
  using parse_time_dateless [of _ "''3:00 PM''" "[(''3'', ''PM''), (''2'', ''00''), (''1'', ''3'')]"]
    no_date_3pm clock_3pm
  by (simp add: clock_3pm_hour clock_3pm_minute at_time_def)

text \<open>
  The claim as stated fails: \<open>13:00 PM\<close> has no date and contains the clock time
  \<open>3:00 PM\<close>, and \<open>_parse_time\<close> raises ValueError on it (the hour becomes 25).
\<close>

theorem parse_time_dateless_counterexample:
  "contains ''3:00 PM'' ''13:00 PM'' \<and>
   try_patterns (py_strip ''13:00 PM'') parse_patterns = None \<and>
   parse_time (at_time 2025 12 16 10 5) ''13:00 PM'' = Inl ValueError"
  by code_simp

section \<open>Properties of the extraction\<close>

lemma map_filter_mem: "y \<in> set (List.map_filter f xs) \<longleftrightarrow> (\<exists>x\<in>set xs. f x = Some y)"
  by (induction xs) (auto split: option.splits)

lemma scrape_cells_mem:
  "s \<in> set (scrape_cells c u now mx cells) \<longleftrightarrow>
     (\<exists>gc\<in>set cells. \<exists>sp\<in>set (gc_spans gc). scrape_span c u now mx gc sp = Some s)"
  by (auto simp: scrape_cells_def map_filter_mem)







lemma ex_max: "add_72h (at_time 2025 12 16 15 0) = Some (at_time 2025 12 19 15 0)"
  by code_simp








text \<open>
  C9, as the code has it. A label in whose title no \<open>H:00 AM/PM\<close> time is found gives no
  record. A label whose time is found but makes no datetime (the constructor raises) is
  kept: the handler logs "including anyway" and the record is returned without the
  window check. Whatever the other labels do, every label of a verified page that gives
  a record has it in the result.
\<close>

theorem unparsed_time_kept:
  "(rx_search slot_time_rx (span_title sp) = None \<longrightarrow>
      scrape_span c u now mx gc sp = None) \<and>
   (span_candidate now gc sp = Some (st, g1, g2, sd) \<longrightarrow> slot_datetime sd g1 g2 = None \<longrightarrow>
      scrape_span c u now mx gc sp = Some (mk_entry c u gc sp (st, g1, g2, sd))) \<and>
   (verify_court_on_page pg c \<longrightarrow> pg_scheduler pg \<longrightarrow> add_72h now = Some mx \<longrightarrow>
    pg_grid pg = Some cells \<longrightarrow> gc' \<in> set cells \<longrightarrow> sp' \<in> set (gc_spans gc') \<longrightarrow>
    scrape_span c (pg_url pg) now mx gc' sp' = Some s \<longrightarrow>
      s \<in> set (scrape_court_schedule pg c now))"
proof (intro conjI impI)
  assume "rx_search slot_time_rx (span_title sp) = None"
  then show "scrape_span c u now mx gc sp = None"
    by (simp add: scrape_span_def span_candidate_def split: option.splits)
next
  assume "span_candidate now gc sp = Some (st, g1, g2, sd)" "slot_datetime sd g1 g2 = None"
  then show "scrape_span c u now mx gc sp = Some (mk_entry c u gc sp (st, g1, g2, sd))"
    by (simp add: scrape_span_def in_window_def)
next
  assume "verify_court_on_page pg c" "pg_scheduler pg" "add_72h now = Some mx"
    "pg_grid pg = Some cells" "gc' \<in> set cells" "sp' \<in> set (gc_spans gc')"
    "scrape_span c (pg_url pg) now mx gc' sp' = Some s"
  then show "s \<in> set (scrape_court_schedule pg c now)"
    by (auto simp: scrape_court_schedule_def scrape_cells_mem)
qed

lemma no_time_in_title: "rx_search slot_time_rx (span_title (bookable ''AM session'')) = None"
  by code_simp

lemma cand_13pm:
  "span_candidate (at_time 2025 12 16 15 0) (bookable_cell ''13:00 PM-14:00 PM'' 0)
     (bookable ''13:00 PM-14:00 PM'') = Some (''Open'', ''13'', ''PM'', (2025, 12, 16))"
  by code_simp

lemma no_datetime_13pm: "slot_datetime (2025, 12, 16) ''13'' ''PM'' = None"
  by code_simp

lemma entry_13pm:
  "mk_entry ''Court 01'' site_url (bookable_cell ''13:00 PM-14:00 PM'' 0)
     (bookable ''13:00 PM-14:00 PM'') (''Open'', ''13'', ''PM'', (2025, 12, 16)) =
   entry_at ''Court 01'' ''2025-12-16 13:00 PM''"
  by code_simp

lemma verified_01:
  "verify_court_on_page (court_page ''Court 01''
     [bookable_cell ''13:00 PM-14:00 PM'' 0, bookable_cell ''03:00 PM-04:00 PM'' 1]) ''Court 01''"
  by code_simp

lemma span_3pm:
  "scrape_span ''Court 01'' site_url (at_time 2025 12 16 15 0) (at_time 2025 12 19 15 0)
     (bookable_cell ''03:00 PM-04:00 PM'' 1) (bookable ''03:00 PM-04:00 PM'') =
   Some (entry_at ''Court 01'' ''2025-12-17 03:00 PM'')"
  by code_simp

text \<open>
  A label without a time, the label \<open>13:00 PM-14:00 PM\<close>, and a page that holds that
  label and a label of tomorrow 3 PM.
\<close>

theorem unparsed_time_kept_witness:
  "scrape_span ''Court 01'' site_url (at_time 2025 12 16 15 0) (at_time 2025 12 19 15 0)
     (bookable_cell ''AM session'' 0) (bookable ''AM session'') = None \<and>
   scrape_span ''Court 01'' site_url (at_time 2025 12 16 15 0) (at_time 2025 12 19 15 0)
     (bookable_cell ''13:00 PM-14:00 PM'' 0) (bookable ''13:00 PM-14:00 PM'') =
     Some (entry_at ''Court 01'' ''2025-12-16 13:00 PM'') \<and>
   entry_at ''Court 01'' ''2025-12-17 03:00 PM'' \<in>
     set (scrape_court_schedule (court_page ''Court 01''
            [bookable_cell ''13:00 PM-14:00 PM'' 0, bookable_cell ''03:00 PM-04:00 PM'' 1])
          ''Court 01'' (at_time 2025 12 16 15 0))"
proof -
  let ?now = "at_time 2025 12 16 15 0"
  let ?mx = "at_time 2025 12 19 15 0"
  let ?cells = "[bookable_cell ''13:00 PM-14:00 PM'' 0, bookable_cell ''03:00 PM-04:00 PM'' 1]"
  let ?pg = "court_page ''Court 01'' ?cells"
  note kept = unparsed_time_kept [where c = "''Court 01''" and u = site_url and now = ?now
      and mx = ?mx and pg = ?pg and cells = ?cells]
  have a: "scrape_span ''Court 01'' site_url ?now ?mx (bookable_cell ''AM session'' 0)
      (bookable ''AM session'') = None"
    using kept [where sp = "bookable ''AM session''" and gc = "bookable_cell ''AM session'' 0"]
      no_time_in_title by simp
  have b: "scrape_span ''Court 01'' site_url ?now ?mx (bookable_cell ''13:00 PM-14:00 PM'' 0)
      (bookable ''13:00 PM-14:00 PM'') = Some (entry_at ''Court 01'' ''2025-12-16 13:00 PM'')"
    using kept [where sp = "bookable ''13:00 PM-14:00 PM''"
        and gc = "bookable_cell ''13:00 PM-14:00 PM'' 0" and st = "''Open''" and ?g1.0 = "''13''"
        and ?g2.0 = "''PM''" and sd = "(2025, 12, 16)"]
      cand_13pm no_datetime_13pm entry_13pm by simp
  have url: "pg_url ?pg = site_url" by (simp add: court_page_def)
  have c: "entry_at ''Court 01'' ''2025-12-17 03:00 PM'' \<in>
      set (scrape_court_schedule ?pg ''Court 01'' ?now)"
    using kept [where gc' = "bookable_cell ''03:00 PM-04:00 PM'' 1"
        and sp' = "bookable ''03:00 PM-04:00 PM''"
        and s = "entry_at ''Court 01'' ''2025-12-17 03:00 PM''"]
      verified_01 ex_max span_3pm url
    by (simp add: court_page_def bookable_cell_def)
  from a b c show ?thesis by simp
qed

text \<open>
  The claim as stated fails: the label \<open>13:00 PM-14:00 PM\<close> makes no datetime (hour 25),
  and its record is returned, with a time no later stage can parse.
\<close>

theorem unparsed_time_counterexample:
  "scrape_court_schedule (court_page ''Court 01'' [bookable_cell ''13:00 PM-14:00 PM'' 0])
     ''Court 01'' (at_time 2025 12 16 15 0) = [entry_at ''Court 01'' ''2025-12-16 13:00 PM''] \<and>
   slot_datetime (2025, 12, 16) ''13'' ''PM'' = None \<and>
   try_patterns ''2025-12-16 13:00 PM'' time_formats = None"
  by code_simp

text \<open>
  C1 fails on the code. For the request "Court 01" the second pattern is \<open>Court\s+1\<close>,
  which also matches the text "Court 12": a page that shows Court 12 verifies, and its
  slot is returned tagged "Court 01". A page that shows Court 02 does not verify.
\<close>

theorem wrong_court_verifies:
  "verify_court_on_page (court_page ''Court 12'' [bookable_cell ''03:00 PM-04:00 PM'' 1]) ''Court 01'' \<and>
   scrape_court_schedule (court_page ''Court 12'' [bookable_cell ''03:00 PM-04:00 PM'' 1])
     ''Court 01'' (at_time 2025 12 16 15 0) = [entry_at ''Court 01'' ''2025-12-17 03:00 PM''] \<and>
   \<not> verify_court_on_page (court_page ''Court 02'' [bookable_cell ''03:00 PM-04:00 PM'' 1]) ''Court 01''"
  by code_simp

section \<open>Properties of the aggregation\<close>

lemma block_indices_snoc: "block_indices (acc @ [(i, j, e)]) = block_indices acc @ [i, j]"
  by (simp add: block_indices_def)

lemma find_pair_match:
  "find (pair_match ps proc i nh) [0..<length ps] = Some j \<Longrightarrow>
     j < length ps \<and> i \<noteq> j \<and> j \<notin> proc \<and> court (fst (ps ! i)) = court (fst (ps ! j)) \<and>
     same_date_hour (snd (ps ! j)) nh"
  by (auto simp: find_Some_iff pair_match_def)

text \<open>
  The invariant of the pairing loop: the positions used by the blocks so far are
  pairwise different and are exactly the processed positions.
\<close>

lemma pair_loop_inv:
  "pair_loop ps is proc acc = Inr (bs, proc') \<Longrightarrow>
   distinct (block_indices acc) \<Longrightarrow> set (block_indices acc) = proc \<Longrightarrow>
   distinct (block_indices bs) \<and> set (block_indices bs) = proc'"
proof (induction ps "is" proc acc rule: pair_loop.induct)
  case (1 ps proc acc)
  then show ?case by simp
next
  case (2 ps i "is" proc acc)
  show ?case
  proof (cases "i \<in> proc")
    case True
    with 2 show ?thesis by simp
  next
    case False
    note nin = this
    show ?thesis
    proof (cases "add_hour (snd (ps ! i))")
      case None
      with nin "2.prems" show ?thesis by simp
    next
      case (Some nh)
      note nh = this
      show ?thesis
      proof (cases "find (pair_match ps proc i nh) [0..<length ps]")
        case None
        with nin nh 2 show ?thesis by simp
      next
        case (Some j)
        note j = this
        from find_pair_match [OF j] have ij: "i \<noteq> j" and jn: "j \<notin> proc" by simp_all
        show ?thesis
        proof (cases "add_hour (snd (ps ! j))")
          case None
          with nin nh j "2.prems" show ?thesis by simp
        next
          case (Some e)
          from nin nh j Some "2.prems"(1)
          have run: "pair_loop ps is (insert j (insert i proc)) (acc @ [(i, j, e)]) = Inr (bs, proc')"
            by simp
          have d: "distinct (block_indices (acc @ [(i, j, e)]))"
            using "2.prems"(2,3) nin jn ij by (auto simp: block_indices_snoc)
          have s: "set (block_indices (acc @ [(i, j, e)])) = insert j (insert i proc)"
            using "2.prems"(3) by (auto simp: block_indices_snoc)
          from "2.IH"(3) [OF nin nh j Some run d s] show ?thesis .
        qed
      qed
    qed
  qed
qed

lemma pairing_inv:
  "pairing ps = Inr (bs, proc) \<Longrightarrow> distinct (block_indices bs) \<and> set (block_indices bs) = proc"
proof -
  assume "pairing ps = Inr (bs, proc)"
  then have "pair_loop ps [0..<length ps] {} [] = Inr (bs, proc)" by (simp add: pairing_def)
  from pair_loop_inv [OF this] show ?thesis by (simp add: block_indices_def)
qed






lemma sorted_345: "parsed_sorted (at_time 2025 12 16 12 0) hours_345 = Inr parsed_345"
  by code_simp

lemma sorted_two_courts:
  "parsed_sorted (at_time 2025 12 16 12 0) two_courts = Inr parsed_two_courts"
  by code_simp

lemma pairing_345: "pairing parsed_345 = Inr ([(0, 1, at_time 2025 12 17 17 0)], {0, 1})"
  by code_simp


text \<open>
  C5, as the code has it. In the pairing phase of \<open>group_slots_by_time_block\<close> no record
  (position of the sorted list) is used by more than one two-hour block, as first or as
  second hour. \<open>find_two_hour_slots\<close> consumes nothing: the second hour of one of its
  blocks can be the first hour of its next block.
\<close>

theorem pairing_uses_each_slot_once:
  assumes "pairing ps = Inr (bs, proc)"
  shows "distinct (block_indices bs)"
  using pairing_inv [OF assms] by simp

theorem pairing_uses_each_slot_once_witness:
  "pairing parsed_345 = Inr ([(0, 1, at_time 2025 12 17 17 0)], {0, 1}) \<and>
   distinct (block_indices [(0, 1, at_time 2025 12 17 17 0)])"
  using pairing_uses_each_slot_once [OF pairing_345] pairing_345 by simp

text \<open>
  The claim as stated fails for \<open>find_two_hour_slots\<close>: of the hours 3, 4 and 5 PM on one
  court it makes the blocks 3 to 5 PM and 4 to 6 PM, and the 4 PM record is in both.
\<close>

theorem find_two_hour_slots_counterexample:
  "find_two_hour_slots (at_time 2025 12 16 12 0) hours_345 =
     Inr [\<lparr>ts_court = ''Court 01'', ts_start_time = ''2025-12-17 3:00 PM'',
            ts_end_time = ''2025-12-17 4:00 PM'', ts_from = at_time 2025 12 17 15 0,
            ts_to = at_time 2025 12 17 17 0, ts_status = ''Open (2 hours)'', ts_link = ''#''\<rparr>,
          \<lparr>ts_court = ''Court 01'', ts_start_time = ''2025-12-17 4:00 PM'',
            ts_end_time = ''2025-12-17 5:00 PM'', ts_from = at_time 2025 12 17 16 0,
            ts_to = at_time 2025 12 17 18 0, ts_status = ''Open (2 hours)'', ts_link = ''#''\<rparr>] \<and>
   two_hour_pairs parsed_345 =
     Inr [(0, 1, at_time 2025 12 17 17 0), (1, 2, at_time 2025 12 17 18 0)] \<and>
   \<not> distinct (block_indices [(0, 1, at_time 2025 12 17 17 0), (1, 2, at_time 2025 12 17 18 0)])"
  by code_simp



text \<open>
  C7 fails on the code. \<open>find_one_hour_slots\<close> remembers the hour after a pair without its
  court, so Court 02 at 4 PM, which no block uses, is left out because Court 01 has 3 and
  4 PM; the pairing of \<open>group_slots_by_time_block\<close> keeps it as a single. And of the
  hours 3, 4 and 5 PM on one court, \<open>find_one_hour_slots\<close> returns 5 PM, which
  \<open>find_two_hour_slots\<close> has in its block from 4 PM.
\<close>

theorem one_hour_slot_suppressed:
  "find_one_hour_slots (at_time 2025 12 16 12 0) two_courts = Inr [] \<and>
   pairing parsed_two_courts = Inr ([(0, 1, at_time 2025 12 17 17 0)], {0, 1}) \<and>
   map (\<lambda>i. fst (parsed_two_courts ! i)) (one_hour_indices parsed_two_courts {0, 1}) =
     [slot_at ''Court 02'' ''2025-12-17 4:00 PM''] \<and>
   find_one_hour_slots (at_time 2025 12 16 12 0) hours_345 =
     Inr [(slot_at ''Court 01'' ''2025-12-17 5:00 PM'', at_time 2025 12 17 17 0)]"
  by code_simp

section \<open>The pairing does not depend on the order of the input\<close>

lemma next_day_later: "next_day d = Some d' \<Longrightarrow> d < d'"
  by (cases d) (auto simp: next_day_def split: if_splits)

lemma add_hour_later:
  assumes "add_hour t = Some nh" and "same_date_hour y nh"
  shows "dt_key t < dt_key y"
proof (cases "hour t < 23")
  case True
  with assms(1) have "nh = t\<lparr>hour := hour t + 1\<rparr>" by (simp add: add_hour_def)
  with assms(2) show ?thesis
    by (simp add: same_date_hour_def dt_date_def dt_key_def)
next
  case False
  with assms(1) obtain dd where dd: "next_day (dt_date t) = Some dd"
    and nh: "nh = (with_date t dd)\<lparr>hour := 0\<rparr>"
    by (auto simp: add_hour_def split: option.splits)
  from next_day_later [OF dd] have lt: "dt_date t < dd" .
  from nh have "dt_date nh = dd" by (cases dd) (simp add: with_date_def dt_date_def)
  with assms(2) have "dt_date y = dd" by (simp add: same_date_hour_def)
  with lt have "dt_date t < dt_date y" by simp
  then show ?thesis by (auto simp: dt_date_def dt_key_def)
qed

lemma find_conj_filter: "find (\<lambda>x. A x \<and> B x) xs = find B (filter A xs)"
  by (induction xs) auto

lemma find_none_prefix: "(\<And>x. x \<in> set xs \<Longrightarrow> \<not> P x) \<Longrightarrow> find P (xs @ ys) = find P ys"
  by (induction xs) auto

lemma find_cong_set: "(\<And>x. x \<in> set xs \<Longrightarrow> P x = Q x) \<Longrightarrow> find P xs = find Q xs"
  by (induction xs) auto

lemma find_remove1_nth:
  "find (\<lambda>j. P (ps ! j)) I = Some j \<Longrightarrow>
     find P (map (\<lambda>k. ps ! k) I) = Some (ps ! j) \<and>
     map (\<lambda>k. ps ! k) (remove1 j I) = remove1 (ps ! j) (map (\<lambda>k. ps ! k) I)"
proof (induction I)
  case Nil
  then show ?case by simp
next
  case (Cons k I)
  show ?case
  proof (cases "P (ps ! k)")
    case True
    with Cons.prems have "j = k" by simp
    with True show ?thesis by simp
  next
    case False
    with Cons.prems have f: "find (\<lambda>j. P (ps ! j)) I = Some j" by simp
    then have "P (ps ! j)" by (auto simp: find_Some_iff)
    with False have ne: "ps ! j \<noteq> ps ! k" "j \<noteq> k" by auto
    from Cons.IH [OF f] False ne show ?thesis by simp
  qed
qed

lemma find_none_nth:
  "find (\<lambda>j. P (ps ! j)) I = None \<Longrightarrow> find P (map (\<lambda>k. ps ! k) I) = None"
  by (auto simp: find_None_iff)


lemma mk_block_block_of: "mk_block ps (i, j, e) = block_of (ps ! i) (ps ! j) e"
  by (simp add: mk_block_def block_of_def)

lemma filter_insert_remove1:
  "filter (\<lambda>k. k \<notin> insert j (insert i proc)) [Suc i..<n] =
     remove1 j (filter (\<lambda>k. k \<notin> proc) [Suc i..<n])"
proof -
  have "remove1 j (filter (\<lambda>k. k \<notin> proc) [Suc i..<n]) =
      filter (\<lambda>k. j \<noteq> k) (filter (\<lambda>k. k \<notin> proc) [Suc i..<n])"
    by (simp add: distinct_remove1_removeAll removeAll_filter_not_eq)
  also have "\<dots> = filter (\<lambda>k. k \<notin> insert j (insert i proc)) [Suc i..<n]"
    by (auto intro: filter_cong)
  finally show ?thesis by simp
qed

lemma find_partner_rest:
  assumes srt: "sorted (map (\<lambda>p. dt_key (snd p)) ps)" and i: "i < length ps"
    and nh: "add_hour (snd (ps ! i)) = Some nh"
  shows "find (pair_match ps proc i nh) [0..<length ps] =
         find (\<lambda>j. hour_match (ps ! i) nh (ps ! j)) (filter (\<lambda>k. k \<notin> proc) [Suc i..<length ps])"
proof -
  have early: "\<not> pair_match ps proc i nh k" if "k \<in> set [0..<Suc i]" for k
  proof
    assume m: "pair_match ps proc i nh k"
    from that i have k: "k \<le> i" "i < length (map (\<lambda>p. dt_key (snd p)) ps)" by auto
    from that i have kl: "k < length ps" by auto
    from sorted_nth_mono [OF srt k] i kl
    have le: "dt_key (snd (ps ! k)) \<le> dt_key (snd (ps ! i))" by simp
    from m have "same_date_hour (snd (ps ! k)) nh" by (simp add: pair_match_def)
    from add_hour_later [OF nh this] le show False by simp
  qed
  have split: "[0..<length ps] = [0..<Suc i] @ [Suc i..<length ps]"
    using i by (metis Suc_leI le0 upt_add_eq_append le_add_diff_inverse)
  have "find (pair_match ps proc i nh) [0..<length ps] =
      find (pair_match ps proc i nh) [Suc i..<length ps]"
    by (subst split) (rule find_none_prefix, rule early)
  also have "\<dots> = find (\<lambda>k. k \<notin> proc \<and> hour_match (ps ! i) nh (ps ! k)) [Suc i..<length ps]"
    by (rule find_cong_set) (auto simp: pair_match_def hour_match_def)
  also have "\<dots> = find (\<lambda>j. hour_match (ps ! i) nh (ps ! j))
      (filter (\<lambda>k. k \<notin> proc) [Suc i..<length ps])"
    by (rule find_conj_filter)
  finally show ?thesis .
qed

lemma pair_loop_as_pair_records:
  assumes srt: "sorted (map (\<lambda>p. dt_key (snd p)) ps)"
  shows "i \<le> length ps \<Longrightarrow>
    map_sum id (\<lambda>r. map (mk_block ps) (fst r)) (pair_loop ps [i..<length ps] proc acc) =
    map_sum id (\<lambda>bs. map (mk_block ps) acc @ bs)
      (pair_records (map (\<lambda>k. ps ! k) (filter (\<lambda>k. k \<notin> proc) [i..<length ps])))"
proof (induction "length ps - i" arbitrary: i proc acc)
  case 0
  then have "i = length ps" by simp
  then show ?case by simp
next
  case (Suc d)
  then have i: "i < length ps" and d: "d = length ps - Suc i" by simp_all
  from i have upt: "[i..<length ps] = i # [Suc i..<length ps]" by (simp add: upt_conv_Cons)
  from i have si: "Suc i \<le> length ps" by simp
  note IH = Suc.hyps(1) [OF d si]
  show ?case
  proof (cases "i \<in> proc")
    case True
    with IH [of proc acc] show ?thesis by (simp add: upt)
  next
    case False
    note nin = this
    let ?I = "filter (\<lambda>k. k \<notin> proc) [Suc i..<length ps]"
    show ?thesis
    proof (cases "add_hour (snd (ps ! i))")
      case None
      with nin show ?thesis by (simp add: upt)
    next
      case (Some nh)
      note nh = this
      note fp = find_partner_rest [OF srt i nh, of proc]
      show ?thesis
      proof (cases "find (\<lambda>j. hour_match (ps ! i) nh (ps ! j)) ?I")
        case None
        from find_none_nth [OF None]
        have "find (hour_match (ps ! i) nh) (map (\<lambda>k. ps ! k) ?I) = None" .
        with nin nh fp None IH [of proc acc] show ?thesis by (simp add: upt)
      next
        case (Some j)
        note j = this
        from find_remove1_nth [OF j]
        have fj: "find (hour_match (ps ! i) nh) (map (\<lambda>k. ps ! k) ?I) = Some (ps ! j)"
          and rj: "map (\<lambda>k. ps ! k) (remove1 j ?I) = remove1 (ps ! j) (map (\<lambda>k. ps ! k) ?I)"
          by simp_all
        show ?thesis
        proof (cases "add_hour (snd (ps ! j))")
          case None
          with nin nh fp j fj show ?thesis by (simp add: upt)
        next
          case (Some e)
          note ih = IH [of "insert j (insert i proc)" "acc @ [(i, j, e)]",
              unfolded filter_insert_remove1 rj]
          with nin nh fp j fj Some show ?thesis
            by (cases "pair_records (remove1 (ps ! j) (map (\<lambda>k. ps ! k) ?I))")
              (simp_all add: upt mk_block_block_of)
        qed
      qed
    qed
  qed
qed

lemma pairing_as_pair_records:
  assumes "sorted (map (\<lambda>p. dt_key (snd p)) ps)"
  shows "map_sum id (\<lambda>r. map (mk_block ps) (fst r)) (pairing ps) = pair_records ps"
proof -
  have "map (\<lambda>k. ps ! k) [0..<length ps] = ps" by (rule map_nth)
  moreover have "map_sum id (\<lambda>bs. bs) (pair_records ps) = pair_records ps"
    by (cases "pair_records ps") simp_all
  ultimately show ?thesis
    using pair_loop_as_pair_records [OF assms, of 0 "{}" "[]"] by (simp add: pairing_def)
qed


lemma find_in_court:
  "in_court c x \<Longrightarrow> find (hour_match x nh) (filter (in_court c) xs) = find (hour_match x nh) xs"
proof -
  assume c: "in_court c x"
  have "find (hour_match x nh) (filter (in_court c) xs) =
      find (\<lambda>y. in_court c y \<and> hour_match x nh y) xs"
    by (rule find_conj_filter [symmetric])
  also have "\<dots> = find (hour_match x nh) xs"
    using c by (intro find_cong_set) (auto simp: in_court_def hour_match_def)
  finally show ?thesis .
qed

lemma find_hour_match: "find (hour_match x nh) xs = Some y \<Longrightarrow> court (fst y) = court (fst x)"
  by (auto simp: find_Some_iff hour_match_def)

lemma filter_remove_other:
  "find (hour_match x nh) xs = Some y \<Longrightarrow> \<not> in_court c x \<Longrightarrow>
     filter (in_court c) (remove1 y xs) = filter (in_court c) xs"
  using find_hour_match [of x nh xs y] by (simp add: filter_remove1 in_court_def)

lemma b_court_block_of: "b_court (block_of x y e) = court (fst x)"
  by (simp add: block_of_def)

lemma pair_records_filter:
  "pair_records xs = Inr bs \<Longrightarrow>
     pair_records (filter (in_court c) xs) = Inr (filter (\<lambda>b. b_court b = c) bs)"
proof (induction xs arbitrary: bs rule: pair_records.induct)
  case 1
  then show ?case by simp
next
  case (2 x xs)
  from "2.prems" obtain nh where nh: "add_hour (snd x) = Some nh"
    by (cases "add_hour (snd x)") auto
  show ?case
  proof (cases "find (hour_match x nh) xs")
    case None
    with nh "2.prems" have "pair_records xs = Inr bs" by simp
    from "2.IH"(1) [OF nh None this] nh None show ?thesis
      by (cases "in_court c x") (simp_all add: find_in_court)
  next
    case (Some y)
    note y = this
    from nh y "2.prems" obtain e where e: "add_hour (snd y) = Some e"
      by (cases "add_hour (snd y)") auto
    from nh y e "2.prems" obtain bs' where bs': "pair_records (remove1 y xs) = Inr bs'"
      and bs: "bs = block_of x y e # bs'"
      by (cases "pair_records (remove1 y xs)") auto
    note ih = "2.IH"(2) [OF nh y e bs']
    show ?thesis
    proof (cases "in_court c x")
      case True
      then have cx: "court (fst x) = c" by (simp add: in_court_def)
      from True ih nh y e bs show ?thesis
        by (simp add: find_in_court filter_remove1 [symmetric] b_court_block_of cx)
    next
      case False
      then have cx: "court (fst x) \<noteq> c" by (simp add: in_court_def)
      from False ih nh y e bs filter_remove_other [OF y False] show ?thesis
        by (simp add: b_court_block_of cx)
    qed
  qed
qed

lemma pair_records_error: "pair_records xs = Inl e \<Longrightarrow> e = OverflowError"
proof (induction xs rule: pair_records.induct)
  case 1
  then show ?case by simp
next
  case (2 x xs)
  then show ?case
    by (auto split: option.splits sum.splits)
qed

lemma pair_records_error_court:
  "pair_records xs = Inl e \<Longrightarrow> \<exists>c e'. pair_records (filter (in_court c) xs) = Inl e'"
proof (induction xs rule: pair_records.induct)
  case 1
  then show ?case by simp
next
  case (2 x xs)
  show ?case
  proof (cases "add_hour (snd x)")
    case None
    then have "pair_records (filter (in_court (court (fst x))) (x # xs)) = Inl OverflowError"
      by (simp add: in_court_def)
    then show ?thesis by blast
  next
    case (Some nh)
    note nh = this
    show ?thesis
    proof (cases "find (hour_match x nh) xs")
      case None
      with nh "2.prems" have "pair_records xs = Inl e" by simp
      from "2.IH"(1) [OF nh None this] obtain c e' where
        c: "pair_records (filter (in_court c) xs) = Inl e'" by blast
      with nh None have "pair_records (filter (in_court c) (x # xs)) = Inl e'"
        by (cases "in_court c x") (simp_all add: find_in_court)
      then show ?thesis by blast
    next
      case (Some y)
      note y = this
      show ?thesis
      proof (cases "add_hour (snd y)")
        case None
        with nh y have "pair_records (filter (in_court (court (fst x))) (x # xs)) =
            Inl OverflowError"
          by (simp add: in_court_def find_in_court)
        then show ?thesis by blast
      next
        case (Some e1)
        with nh y "2.prems" have "pair_records (remove1 y xs) = Inl e"
          by (cases "pair_records (remove1 y xs)") auto
        from "2.IH"(2) [OF nh y Some this] obtain c e' where
          c: "pair_records (filter (in_court c) (remove1 y xs)) = Inl e'" by blast
        have "pair_records (filter (in_court c) (x # xs)) = Inl e'"
        proof (cases "in_court c x")
          case True
          with c nh y Some show ?thesis
            by (simp add: find_in_court filter_remove1 [symmetric])
        next
          case False
          with c filter_remove_other [OF y False] show ?thesis by simp
        qed
        then show ?thesis by blast
      qed
    qed
  qed
qed


lemma pair_records_same_courts:
  assumes eq: "\<And>c. filter (in_court c) xs = filter (in_court c) ys"
  shows "map_sum id set (pair_records xs) = map_sum id set (pair_records ys)"
proof (cases "pair_records xs")
  case (Inl e)
  note ex = this
  show ?thesis
  proof (cases "pair_records ys")
    case (Inl e')
    with ex pair_records_error [OF ex] pair_records_error [OF Inl] show ?thesis by simp
  next
    case (Inr bs')
    from pair_records_error_court [OF ex] obtain c e' where
      "pair_records (filter (in_court c) xs) = Inl e'" by blast
    with eq [of c] pair_records_filter [OF Inr, of c] show ?thesis by simp
  qed
next
  case (Inr bs)
  note bx = this
  show ?thesis
  proof (cases "pair_records ys")
    case (Inl e')
    from pair_records_error_court [OF Inl] obtain c e'' where
      "pair_records (filter (in_court c) ys) = Inl e''" by blast
    with eq [of c] pair_records_filter [OF bx, of c] show ?thesis by simp
  next
    case (Inr bs')
    have f: "filter (\<lambda>b. b_court b = c) bs = filter (\<lambda>b. b_court b = c) bs'" for c
      using pair_records_filter [OF bx, of c] pair_records_filter [OF Inr, of c] eq [of c]
      by simp
    have "set bs = set bs'"
    proof (rule set_eqI)
      fix b
      have "b \<in> set bs \<longleftrightarrow> b \<in> set (filter (\<lambda>b'. b_court b' = b_court b) bs)" by simp
      also have "\<dots> \<longleftrightarrow> b \<in> set (filter (\<lambda>b'. b_court b' = b_court b) bs')"
        by (simp only: f)
      also have "\<dots> \<longleftrightarrow> b \<in> set bs'" by simp
      finally show "b \<in> set bs \<longleftrightarrow> b \<in> set bs'" .
    qed
    with bx Inr show ?thesis by simp
  qed
qed

lemma dt_key_inj: "dt_key a = dt_key b \<Longrightarrow> a = b"
  by (cases a, cases b) (simp add: dt_key_def)

lemma sorted_perm_filter_eq:
  assumes sx: "sorted (map (\<lambda>p. dt_key (snd p)) xs)"
    and sy: "sorted (map (\<lambda>p. dt_key (snd p)) ys)"
    and perm: "mset xs = mset ys"
    and inj: "inj_on (\<lambda>p. (court (fst p), snd p)) (set xs)"
  shows "filter (in_court c) xs = filter (in_court c) ys"
proof -
  let ?k = "\<lambda>p::slot \<times> datetime. dt_key (snd p)"
  let ?fx = "filter (in_court c) xs" and ?fy = "filter (in_court c) ys"
  from perm have m: "mset ?fx = mset ?fy" by simp
  from sx have s1: "sorted (map ?k ?fx)" by (rule sorted_filter)
  from sy have s2: "sorted (map ?k ?fy)" by (rule sorted_filter)
  have i: "inj_on ?k (set ?fx)"
  proof (rule inj_onI)
    fix p q
    assume p: "p \<in> set ?fx" and q: "q \<in> set ?fx" and k: "dt_key (snd p) = dt_key (snd q)"
    from k have "snd p = snd q" by (rule dt_key_inj)
    moreover from p q have "court (fst p) = court (fst q)" by (simp add: in_court_def)
    ultimately have "(court (fst p), snd p) = (court (fst q), snd q)" by simp
    moreover from p q have "p \<in> set xs" "q \<in> set xs" by simp_all
    ultimately show "p = q" using inj by (auto dest: inj_onD)
  qed
  from sort_key_inj_key_eq [OF m i s2] have "sort_key ?k ?fx = ?fy" .
  moreover from s1 have "sort_key ?k ?fx = ?fx" by (rule sort_key_id_if_sorted)
  ultimately show ?thesis by simp
qed

lemma parse_time_error: "parse_time now v = Inl e \<Longrightarrow> e = ValueError"
  by (auto simp: parse_time_def replace_time_def split: if_splits option.splits sum.splits)

lemma parse_all_char:
  "parse_all now data =
     (if \<forall>x\<in>set data. \<exists>r. parse_time now (time x) = Inr r
      then Inr (map (\<lambda>x. (x, projr (parse_time now (time x)))) data)
      else Inl ValueError)"
proof (induction data)
  case Nil
  then show ?case by simp
next
  case (Cons x xs)
  show ?case
  proof (cases "parse_time now (time x)")
    case (Inl e)
    with parse_time_error [OF Inl] show ?thesis by auto
  next
    case (Inr r)
    with Cons show ?thesis by auto
  qed
qed

lemma keep_parsed_filter:
  "keep_parsed rs = map (\<lambda>p. (fst p, the (snd p))) (filter (\<lambda>p. snd p \<noteq> None) rs)"
  by (induction rs rule: keep_parsed.induct) simp_all

lemma keep_parsed_perm: "mset xs = mset ys \<Longrightarrow> mset (keep_parsed (map g xs)) = mset (keep_parsed (map g ys))"
proof -
  assume "mset xs = mset ys"
  then have "mset (map g xs) = mset (map g ys)" by simp
  then have "mset (filter (\<lambda>p. snd p \<noteq> None) (map g xs)) =
      mset (filter (\<lambda>p. snd p \<noteq> None) (map g ys))"
    by (simp only: mset_filter)
  then have "mset (map (\<lambda>p. (fst p, the (snd p))) (filter (\<lambda>p. snd p \<noteq> None) (map g xs))) =
      mset (map (\<lambda>p. (fst p, the (snd p))) (filter (\<lambda>p. snd p \<noteq> None) (map g ys)))"
    by (simp only: mset_map)
  then show ?thesis by (simp only: keep_parsed_filter)
qed

lemma parsed_sorted_perm:
  assumes ps: "parsed_sorted now data = Inr ps" and perm: "mset data' = mset data"
  shows "\<exists>ps'. parsed_sorted now data' = Inr ps' \<and> mset ps' = mset ps \<and>
           sorted (map (\<lambda>p. dt_key (snd p)) ps') \<and> sorted (map (\<lambda>p. dt_key (snd p)) ps)"
proof -
  let ?g = "\<lambda>x. (x, projr (parse_time now (time x)))"
  from perm have sets: "set data' = set data" by (rule mset_eq_setD)
  from ps have ok: "\<forall>x\<in>set data. \<exists>r. parse_time now (time x) = Inr r"
    by (auto simp: parsed_sorted_def parse_all_char split: if_splits)
  with ps have p: "ps = sort_key (\<lambda>p. dt_key (snd p)) (keep_parsed (map ?g data))"
    by (auto simp: parsed_sorted_def parse_all_char)
  from ok sets have p': "parsed_sorted now data' =
      Inr (sort_key (\<lambda>p. dt_key (snd p)) (keep_parsed (map ?g data')))"
    by (simp add: parsed_sorted_def parse_all_char)
  from keep_parsed_perm [OF perm, of ?g] p
  have "mset (sort_key (\<lambda>p. dt_key (snd p)) (keep_parsed (map ?g data'))) = mset ps"
    by simp
  with p p' show ?thesis by simp
qed

lemma two_hour_blocks_sorted:
  assumes "parsed_sorted now data = Inr ps" and "sorted (map (\<lambda>p. dt_key (snd p)) ps)"
  shows "two_hour_blocks now data = pair_records ps"
proof -
  from assms(1) have "two_hour_blocks now data =
      map_sum id (\<lambda>r. map (mk_block ps) (fst r)) (pairing ps)"
    by (cases "pairing ps") (auto simp: two_hour_blocks_def)
  with pairing_as_pair_records [OF assms(2)] show ?thesis by simp
qed

text \<open>
  C4, as the code has it. The records are sorted by their parsed time alone, and records
  with the same time keep their input order. When no two different parsed records have
  both the same court and the same start time, the set of two-hour blocks that the
  pairing phase of \<open>group_slots_by_time_block\<close> forms is the same for every permutation
  of the input (and so is an exception, if the run ends in one).
\<close>

theorem two_hour_blocks_permutation:
  assumes ps: "parsed_sorted now data = Inr ps"
    and inj: "inj_on (\<lambda>p. (court (fst p), snd p)) (set ps)"
    and perm: "mset data' = mset data"
  shows "map_sum id set (two_hour_blocks now data') = map_sum id set (two_hour_blocks now data)"
proof -
  from parsed_sorted_perm [OF ps perm] obtain ps' where
    ps': "parsed_sorted now data' = Inr ps'" and m: "mset ps' = mset ps"
    and s': "sorted (map (\<lambda>p. dt_key (snd p)) ps')"
    and s: "sorted (map (\<lambda>p. dt_key (snd p)) ps)"
    by blast
  from m have "mset ps = mset ps'" by simp
  from sorted_perm_filter_eq [OF s s' this inj]
  have "filter (in_court c) ps = filter (in_court c) ps'" for c .
  then have "map_sum id set (pair_records ps') = map_sum id set (pair_records ps)"
    by (intro pair_records_same_courts) simp
  with two_hour_blocks_sorted [OF ps s] two_hour_blocks_sorted [OF ps' s'] show ?thesis
    by simp
qed


lemma blocks_two_courts:
  "two_hour_blocks (at_time 2025 12 16 12 0) two_courts = Inr [court_01_3_to_5 ''#'']"
  by code_simp

lemma inj_two_courts: "inj_on (\<lambda>p. (court (fst p), snd p)) (set parsed_two_courts)"
  by (simp add: parsed_two_courts_def slot_at_def at_time_def)

text \<open>Court 01 at 3 and 4 PM and Court 02 at 4 PM, read in the opposite order.\<close>

theorem two_hour_blocks_permutation_witness:
  "map_sum id set (two_hour_blocks (at_time 2025 12 16 12 0) (rev two_courts)) =
     Inr {court_01_3_to_5 ''#''}"
  using two_hour_blocks_permutation [OF sorted_two_courts inj_two_courts, of "rev two_courts"]
  by (simp add: blocks_two_courts)

text \<open>
  The claim as stated fails: the sort is by time only and keeps the input order of
  records with equal times, so of two records of one court at 3 PM that differ in their
  link, the one that comes first in the input is paired with 4 PM.
\<close>

theorem two_hour_blocks_order_counterexample:
  "mset dup_swapped = mset dup_slots \<and>
   two_hour_blocks (at_time 2025 12 16 12 0) dup_slots = Inr [court_01_3_to_5 ''a''] \<and>
   two_hour_blocks (at_time 2025 12 16 12 0) dup_swapped = Inr [court_01_3_to_5 ''b''] \<and>
   court_01_3_to_5 ''a'' \<noteq> court_01_3_to_5 ''b''"
proof -
  have "mset dup_swapped = mset dup_slots"
    by (simp add: dup_swapped_def dup_slots_def)
  moreover have "two_hour_blocks (at_time 2025 12 16 12 0) dup_slots = Inr [court_01_3_to_5 ''a'']"
    by code_simp
  moreover have "two_hour_blocks (at_time 2025 12 16 12 0) dup_swapped = Inr [court_01_3_to_5 ''b'']"
    by code_simp
  moreover have "court_01_3_to_5 ''a'' \<noteq> court_01_3_to_5 ''b''"
    by (simp add: court_01_3_to_5_def)
  ultimately show ?thesis by simp
qed

end
